theory Spec2Isabelle
  imports Main
begin

section \<open>Python values used by the importer\<close>

text \<open>
  The importer is Python 2 code. A text value there is either a byte string (\<open>str\<close>) or a
  Unicode string (\<open>unicode\<close>); the two behave differently under \<open>decode\<close>, \<open>str()\<close>,
  \<open>is ''\<close> and file writes, so the model keeps them apart. A \<open>char\<close> of HOL is one byte,
  a code point is a natural number. \<open>None\<close> is the \<open>None\<close> of an option type.
\<close>

datatype pytext = Str string | Uni "nat list"

text \<open>
  Exceptions are values. \<open>UnicodeError\<close> stands for both of its subclasses
  (\<open>UnicodeDecodeError\<close>, \<open>UnicodeEncodeError\<close>); none of the handlers of the importer
  catches either.
\<close>

datatype pyerr =
    InvalidSource string
  | AcrylamidException string
  | AttributeError
  | TypeError
  | KeyError string
  | IndexError
  | ValueError
  | UnicodeError
  | IOError string
  | URLError string
  | EOFError

fun codes :: "pytext \<Rightarrow> nat list" where
  "codes (Str s) = map of_char s"
| "codes (Uni cs) = cs"

definition is_ascii :: "pytext \<Rightarrow> bool" where
  "is_ascii t = list_all (\<lambda>c. c < 128) (codes t)"

definition lower_char :: "char \<Rightarrow> char" where
  "lower_char c =
     (if (65::nat) \<le> of_char c \<and> of_char c \<le> (90::nat) then char_of (of_char c + (32::nat)) else c)"

definition lower :: "string \<Rightarrow> string" where
  "lower s = map lower_char s"

section \<open>convert: HTML to Markdown or reStructuredText\<close>

text \<open>
  \<open>system(cmd, stdin=...)\<close> of \<open>acrylamid.utils\<close> runs an external program. It is a
  parameter of the model, \<open>sys\<close>: it returns the program's output, raises
  \<open>AcrylamidException\<close> (\<open>Failed\<close>, with the message) or raises \<open>OSError\<close>
  (\<open>Unavailable\<close>). The command is a list of words for pandoc and a bare program name for
  the fallbacks, as in the source. The model returns, next to the result, what \<open>convert\<close>
  did on the way: the programs it ran and the warnings it logged.
\<close>

datatype cmd = Argv "string list" | Prog string

datatype sys_result = Output string | Failed string | Unavailable

datatype effect = Ran cmd string | Warned string

type_synonym converted = "(pyerr + (pytext option \<times> string)) \<times> effect list"

definition pandoc :: "string \<Rightarrow> cmd" where
  "pandoc fmt = Argv [''pandoc'', ''--normalize'', ''-f'', ''html'', ''-t'', fmt, ''--strict'']"

text \<open>
  \<open>str(data.decode('utf-8'))\<close>. On a \<open>str\<close>, \<open>decode\<close> fails on bytes that are not UTF-8
  and gives a \<open>unicode\<close> otherwise, which \<open>str()\<close> encodes with the ASCII codec; on a
  \<open>unicode\<close>, \<open>decode\<close> first encodes with the ASCII codec. Either way the expression has
  a value exactly when every byte or code point is below 128, and the value is the same
  characters as a \<open>str\<close>.
\<close>

fun as_str :: "pytext \<Rightarrow> string" where
  "as_str (Str s) = s"
| "as_str (Uni cs) = map char_of cs"

definition str_decode_utf8 :: "pytext \<Rightarrow> pyerr + string" where
  "str_decode_utf8 data = (if is_ascii data then Inr (as_str data) else Inl UnicodeError)"

text \<open>The \<open>for cmd in cmds: try ... except ... else: return data, 'html'\<close> loop.\<close>

fun run_cmds :: "(cmd \<Rightarrow> string \<Rightarrow> sys_result) \<Rightarrow> pytext \<Rightarrow> string \<Rightarrow> cmd list \<Rightarrow> converted" where
  "run_cmds sys data fmt [] = (Inr (Some data, ''html''), [])"
| "run_cmds sys data fmt (c # cs) =
     (case str_decode_utf8 data of
        Inl e \<Rightarrow> (Inl e, [])
      | Inr stdin \<Rightarrow>
          (case sys c stdin of
             Output out \<Rightarrow> (Inr (Some (Str out), lower fmt), [Ran c stdin])
           | Failed msg \<Rightarrow>
               (case run_cmds sys data fmt cs of (r, es) \<Rightarrow> (r, Ran c stdin # Warned msg # es))
           | Unavailable \<Rightarrow>
               (case run_cmds sys data fmt cs of (r, es) \<Rightarrow> (r, Ran c stdin # es))))"

definition markdown_names :: "string list" where
  "markdown_names = [''Markdown'', ''markdown'', ''mkdown'', ''md'', ''mkd'']"

definition rst_names :: "string list" where
  "rst_names = [''rst'', ''restructuredtext'', ''rest'', ''reStructuredText'']"

text \<open>The first \<open>if\<close> of \<open>convert\<close>: the fallback programs and the folded format.\<close>

definition fold_fmt :: "string \<Rightarrow> cmd list \<times> string" where
  "fold_fmt fmt =
     (if fmt \<in> set markdown_names then ([Prog ''html2text''], ''markdown'')
      else if fmt \<in> set rst_names then ([Prog ''html2rest''], ''rst'')
      else ([], fmt))"

text \<open>
  \<open>convert(data, fmt)\<close>. pandoc is put first in the list of programs, with the folded
  format as its target. Then the tests, in the order of the source: the format \<open>html\<close>
  returns the input as it is; an input that is \<open>None\<close> or the empty \<open>str\<close> returns the
  empty string (\<open>data is ''\<close> holds for the empty \<open>str\<close>, not for an empty \<open>unicode\<close>);
  otherwise the programs are tried in turn.
\<close>

definition convert :: "(cmd \<Rightarrow> string \<Rightarrow> sys_result) \<Rightarrow> pytext option \<Rightarrow> string \<Rightarrow> converted" where
  "convert sys data fmt =
     (case fold_fmt fmt of
        (cmds0, fmt1) \<Rightarrow>
          (let cmds = pandoc fmt1 # cmds0 in
           if fmt1 = ''html'' then (Inr (data, ''html''), [])
           else
             (case data of
                None \<Rightarrow> (Inr (Some (Str ''''), fmt1), [])
              | Some d \<Rightarrow>
                  if d = Str '''' then (Inr (Some (Str ''''), fmt1), [])
                  else run_cmds sys d fmt1 cmds)))"

section \<open>Dates\<close>

text \<open>
  The parsers hand dates to the standard library: \<open>email.utils.parsedate_tz\<close> and
  \<open>mktime_tz\<close>, \<open>datetime.fromtimestamp\<close> and \<open>datetime.strptime\<close>. The model follows
  these functions. A \<open>datetime\<close> is naive: year, month, day, hour, minute, second, and
  no zone. The local zone of the process is a parameter, \<open>tzoff\<close>: its offset from UTC
  in seconds, east positive, the same at every instant.
\<close>

datatype datetime = DateTime int int int int int int

text \<open>
  The proleptic Gregorian calendar of the \<open>datetime\<close> module: the days before a year and
  before a month, the ordinal of a date (1 for 0001-01-01) and the date of an ordinal.
  \<open>calendar.timegm\<close> counts the seconds from 1970-01-01 00:00:00 UTC; it goes through
  \<open>datetime.date(year, month, 1)\<close>, which refuses a year outside 1..9999 and a month
  outside 1..12.
\<close>

fun is_leap :: "int \<Rightarrow> bool" where
  "is_leap y = (y mod 4 = 0 \<and> (y mod 100 \<noteq> 0 \<or> y mod 400 = 0))"

definition days_before_year :: "int \<Rightarrow> int" where
  "days_before_year y = (y - 1) * 365 + (y - 1) div 4 - (y - 1) div 100 + (y - 1) div 400"

definition days_in_month :: "int \<Rightarrow> int \<Rightarrow> int" where
  "days_in_month y m =
     (if m = 2 then (if is_leap y then 29 else 28)
      else if m = 4 \<or> m = 6 \<or> m = 9 \<or> m = 11 then 30 else 31)"

fun days_before_month_nat :: "int \<Rightarrow> nat \<Rightarrow> int" where
  "days_before_month_nat y 0 = 0"
| "days_before_month_nat y (Suc k) =
     (if k = 0 then 0 else days_before_month_nat y k + days_in_month y (int k))"

definition days_before_month :: "int \<Rightarrow> int \<Rightarrow> int" where
  "days_before_month y m = days_before_month_nat y (nat m)"

definition ymd2ord :: "int \<Rightarrow> int \<Rightarrow> int \<Rightarrow> int" where
  "ymd2ord y m d = days_before_year y + days_before_month y m + d"

definition epoch_ord :: int where
  "epoch_ord = 719163"

definition timegm :: "int \<Rightarrow> int \<Rightarrow> int \<Rightarrow> int \<Rightarrow> int \<Rightarrow> int \<Rightarrow> pyerr + int" where
  "timegm y m d hh mm ss =
     (if 1 \<le> y \<and> y \<le> 9999 \<and> 1 \<le> m \<and> m \<le> 12
      then Inr ((((ymd2ord y m 1 - epoch_ord + d - 1) * 24 + hh) * 60 + mm) * 60 + ss)
      else Inl ValueError)"

definition ord2ymd :: "int \<Rightarrow> int \<times> int \<times> int" where
  "ord2ymd n0 =
     (let n = n0 - 1;
          n400 = n div 146097; n = n mod 146097;
          n100 = n div 36524; n = n mod 36524;
          n4 = n div 1461; n = n mod 1461;
          n1 = n div 365; n = n mod 365;
          y = n400 * 400 + 1 + n100 * 100 + n4 * 4 + n1
      in if n1 = 4 \<or> n100 = 4 then (y - 1, 12, 31)
         else
           (let m = (n + 50) div 32;
                preceding = days_before_month y m
            in if preceding > n
               then (y, m - 1, n - (preceding - days_in_month y (m - 1)) + 1)
               else (y, m, n - preceding + 1)))"

text \<open>
  \<open>datetime.fromtimestamp(ts)\<close>: the naive local time of the instant \<open>ts\<close>. A year
  outside 1..9999 is refused.
\<close>

definition fromtimestamp :: "int \<Rightarrow> int \<Rightarrow> pyerr + datetime" where
  "fromtimestamp tzoff ts =
     (let t = ts + tzoff; secs = t mod 86400 in
      case ord2ymd (t div 86400 + epoch_ord) of
        (y, m, d) \<Rightarrow>
          if 1 \<le> y \<and> y \<le> 9999
          then Inr (DateTime y m d (secs div 3600) (secs mod 3600 div 60) (secs mod 60))
          else Inl ValueError)"

subsection \<open>String helpers of Python\<close>

text \<open>
  The date parsers read code points. On a byte string (\<open>str\<close>) white space, digits and
  letter case are the ASCII ones.
\<close>

abbreviation lit :: "string \<Rightarrow> nat list" where
  "lit s \<equiv> map of_char s"

definition is_space :: "nat \<Rightarrow> bool" where
  "is_space c = (c = 32 \<or> (9 \<le> c \<and> c \<le> 13))"

definition is_digit :: "nat \<Rightarrow> bool" where
  "is_digit c = (48 \<le> c \<and> c \<le> 57)"

definition lower_code :: "nat \<Rightarrow> nat" where
  "lower_code c = (if 65 \<le> c \<and> c \<le> 90 then c + 32 else c)"

definition upper_code :: "nat \<Rightarrow> nat" where
  "upper_code c = (if 97 \<le> c \<and> c \<le> 122 then c - 32 else c)"

text \<open>
  On a \<open>unicode\<close> text the same methods follow the character database of the interpreter.
  The tables below are those of CPython 2.7 (Unicode 5.2.0) in a build whose code points
  have four bytes. \<open>unicode.split()\<close> splits at every character of the bidirectional
  classes WS, B and S and of the category Zs.
\<close>

definition unicode_isspace :: "nat \<Rightarrow> bool" where
  "unicode_isspace c =
     ((9 \<le> c \<and> c \<le> 13) \<or> (28 \<le> c \<and> c \<le> 32) \<or> c = 133 \<or> c = 160 \<or> c = 5760
      \<or> c = 6158 \<or> (8192 \<le> c \<and> c \<le> 8202) \<or> c = 8232 \<or> c = 8233 \<or> c = 8239
      \<or> c = 8287 \<or> c = 12288)"

text \<open>
  \<open>unicode.lower()\<close> and \<open>unicode.upper()\<close>. Beside the ASCII letters, U+0130 and U+212A
  have an ASCII lower case (\<open>i\<close> and \<open>k\<close>), U+0131 and U+017F an ASCII upper case (\<open>I\<close> and
  \<open>S\<close>). The case mapping of every other character is a letter outside ASCII; the
  parser only compares the mapped field with ASCII names and reads it with \<open>int\<close>, which
  tells no two such letters apart, so the model leaves these characters as they are.
\<close>

definition unicode_lower :: "nat \<Rightarrow> nat" where
  "unicode_lower c = (if c = 304 then 105 else if c = 8490 then 107 else lower_code c)"

definition unicode_upper :: "nat \<Rightarrow> nat" where
  "unicode_upper c = (if c = 305 then 73 else if c = 383 then 83 else upper_code c)"

text \<open>
  The decimal digits (the value \<open>Py_UNICODE_TODECIMAL\<close> gives): ten characters from each
  zero of \<open>decimal_zeros\<close>, the fifty mathematical digits from U+1D7CE, and U+19DA.
\<close>

definition decimal_zeros :: "nat list" where
  "decimal_zeros =
     [48, 1632, 1776, 1984, 2406, 2534, 2662, 2790, 2918, 3046, 3174, 3302, 3430, 3664,
      3792, 3872, 4160, 4240, 6112, 6160, 6470, 6608, 6784, 6800, 6992, 7088, 7232, 7248,
      42528, 43216, 43264, 43472, 43600, 44016, 65296, 66720]"

definition unicode_decimal :: "nat \<Rightarrow> nat option" where
  "unicode_decimal c =
     (if c = 6618 then Some 1
      else if 120782 \<le> c \<and> c \<le> 120831 then Some ((c - 120782) mod 10)
      else (case filter (\<lambda>z. z \<le> c \<and> c < z + 10) decimal_zeros of
              z # _ \<Rightarrow> Some (c - z)
            | [] \<Rightarrow> None))"

text \<open>
  \<open>unicode.isdigit()\<close>: the decimal digits, and the characters that have a digit value
  only (superscripts, subscripts, circled digits, ...).
\<close>

definition digit_ranges :: "(nat \<times> nat) list" where
  "digit_ranges =
     [(178, 179), (185, 185), (4969, 4977), (8304, 8304), (8308, 8313), (8320, 8329),
      (9312, 9320), (9332, 9340), (9352, 9360), (9450, 9450), (9461, 9469), (9471, 9471),
      (10102, 10110), (10112, 10120), (10122, 10130), (68160, 68163), (69216, 69224),
      (127232, 127242)]"

definition unicode_isdigit :: "nat \<Rightarrow> bool" where
  "unicode_isdigit c =
     (case unicode_decimal c of
        Some _ \<Rightarrow> True
      | None \<Rightarrow> list_ex (\<lambda>(a, b). a \<le> c \<and> c \<le> b) digit_ranges)"

text \<open>
  \<open>s.split()\<close>: the maximal runs of characters that are not white space, for the
  white space \<open>sp\<close> of the type of \<open>s\<close>.
\<close>

fun split_ws :: "(nat \<Rightarrow> bool) \<Rightarrow> nat list \<Rightarrow> nat list \<Rightarrow> nat list list" where
  "split_ws sp cur [] = (if cur = [] then [] else [rev cur])"
| "split_ws sp cur (c # cs) =
     (if sp c then (if cur = [] then split_ws sp [] cs else rev cur # split_ws sp [] cs)
      else split_ws sp (c # cur) cs)"

text \<open>\<open>s.split(sep)\<close> for a one-character separator: empty pieces are kept.\<close>

fun split_on :: "nat \<Rightarrow> nat list \<Rightarrow> nat list list" where
  "split_on sep [] = [[]]"
| "split_on sep (c # cs) =
     (if c = sep then [] # split_on sep cs
      else (case split_on sep cs of [] \<Rightarrow> [[c]] | w # ws \<Rightarrow> (c # w) # ws))"

text \<open>\<open>s.find(c)\<close> and \<open>s.rfind(c)\<close>: an index, or \<open>None\<close> for \<open>-1\<close>.\<close>

fun find_code :: "nat \<Rightarrow> nat list \<Rightarrow> nat option" where
  "find_code x [] = None"
| "find_code x (c # cs) = (if c = x then Some 0 else map_option Suc (find_code x cs))"

definition rfind_code :: "nat \<Rightarrow> nat list \<Rightarrow> nat option" where
  "rfind_code x s = map_option (\<lambda>i. length s - 1 - i) (find_code x (rev s))"

text \<open>
  \<open>int(s)\<close> on a byte string of a sign and decimal digits; \<open>None\<close> is \<open>ValueError\<close>.
\<close>

fun digits_val :: "int \<Rightarrow> nat list \<Rightarrow> int" where
  "digits_val acc [] = acc"
| "digits_val acc (c # cs) = digits_val (acc * 10 + (int c - 48)) cs"

definition unsigned_int :: "nat list \<Rightarrow> int option" where
  "unsigned_int s = (if s \<noteq> [] \<and> list_all is_digit s then Some (digits_val 0 s) else None)"

fun py_int :: "nat list \<Rightarrow> int option" where
  "py_int [] = None"
| "py_int (c # cs) =
     (if c = 45 then map_option uminus (unsigned_int cs)
      else if c = 43 then unsigned_int cs
      else unsigned_int (c # cs))"

text \<open>
  \<open>int(u)\<close> on a \<open>unicode\<close> text first encodes it as a byte string: white space becomes a
  blank, a decimal digit its ASCII digit, any other character below 256 its byte, and
  any other character raises \<open>UnicodeEncodeError\<close>, a \<open>ValueError\<close>. The byte string is
  then read as above.
\<close>

fun encode_decimal :: "nat list \<Rightarrow> nat list option" where
  "encode_decimal [] = Some []"
| "encode_decimal (c # cs) =
     (case (if unicode_isspace c then Some 32
            else (case unicode_decimal c of
                    Some d \<Rightarrow> Some (48 + d)
                  | None \<Rightarrow> if 0 < c \<and> c < 256 then Some c else None)) of
        None \<Rightarrow> None
      | Some b \<Rightarrow> map_option ((#) b) (encode_decimal cs))"

definition unicode_int :: "nat list \<Rightarrow> int option" where
  "unicode_int s = (case encode_decimal s of None \<Rightarrow> None | Some b \<Rightarrow> py_int b)"

text \<open>
  The methods by the type of the text they are called on: \<open>u\<close> is true for a \<open>unicode\<close>,
  false for a \<open>str\<close>. Every piece the parser cuts from a text has the type of the text.
\<close>

fun is_unicode :: "pytext \<Rightarrow> bool" where
  "is_unicode (Uni cs) = True"
| "is_unicode (Str s) = False"

definition isspace_of :: "bool \<Rightarrow> nat \<Rightarrow> bool" where
  "isspace_of u c = (if u then unicode_isspace c else is_space c)"

definition isdigit_of :: "bool \<Rightarrow> nat \<Rightarrow> bool" where
  "isdigit_of u c = (if u then unicode_isdigit c else is_digit c)"

definition lower_of :: "bool \<Rightarrow> nat list \<Rightarrow> nat list" where
  "lower_of u s = (if u then map unicode_lower s else map lower_code s)"

definition upper_of :: "bool \<Rightarrow> nat list \<Rightarrow> nat list" where
  "upper_of u s = (if u then map unicode_upper s else map upper_code s)"

definition int_of :: "bool \<Rightarrow> nat list \<Rightarrow> int option" where
  "int_of u s = (if u then unicode_int s else py_int s)"

text \<open>\<open>if s[-1] == ',': s = s[:-1]\<close>; the index raises on an empty string.\<close>

definition strip_comma :: "nat list \<Rightarrow> pyerr + nat list" where
  "strip_comma s =
     (if s = [] then Inl IndexError else if last s = 44 then Inr (butlast s) else Inr s)"

subsection \<open>email.utils.parsedate_tz and mktime_tz\<close>

definition daynames :: "nat list list" where
  "daynames = map lit [''mon'', ''tue'', ''wed'', ''thu'', ''fri'', ''sat'', ''sun'']"

definition monthnames :: "nat list list" where
  "monthnames = map lit
     [''jan'', ''feb'', ''mar'', ''apr'', ''may'', ''jun'', ''jul'', ''aug'', ''sep'', ''oct'',
      ''nov'', ''dec'', ''january'', ''february'', ''march'', ''april'', ''may'', ''june'',
      ''july'', ''august'', ''september'', ''october'', ''november'', ''december'']"

definition timezones :: "(nat list \<times> int) list" where
  "timezones =
     [(lit ''UT'', 0), (lit ''UTC'', 0), (lit ''GMT'', 0), (lit ''Z'', 0),
      (lit ''AST'', -400), (lit ''ADT'', -300), (lit ''EST'', -500), (lit ''EDT'', -400),
      (lit ''CST'', -600), (lit ''CDT'', -500), (lit ''MST'', -700), (lit ''MDT'', -600),
      (lit ''PST'', -800), (lit ''PDT'', -700)]"

fun index_of :: "'a \<Rightarrow> 'a list \<Rightarrow> nat" where
  "index_of x [] = 0"
| "index_of x (y # ys) = (if x = y then 0 else Suc (index_of x ys))"

text \<open>
  The time tuple of \<open>parsedate_tz\<close>, without its three constant fields: year, month, day,
  hour, minute, second and the zone offset in seconds (\<open>None\<close> when the string names no
  zone).
\<close>

type_synonym timetuple = "int \<times> int \<times> int \<times> int \<times> int \<times> int \<times> int option"

text \<open>The first steps: drop the day name, undo the RFC 850 form, split off the zone.\<close>

fun drop_dayname :: "bool \<Rightarrow> nat list list \<Rightarrow> pyerr + nat list list" where
  "drop_dayname u [] = Inl IndexError"
| "drop_dayname u (d0 # ds) =
     (if (d0 \<noteq> [] \<and> last d0 = 44) \<or> lower_of u d0 \<in> set daynames then Inr ds
      else (case rfind_code 44 d0 of
              Some i \<Rightarrow> Inr (drop (i + 1) d0 # ds)
            | None \<Rightarrow> Inr (d0 # ds)))"

definition undo_rfc850 :: "nat list list \<Rightarrow> nat list list" where
  "undo_rfc850 data =
     (case data of
        [d0, d1, d2] \<Rightarrow>
          (let stuff = split_on 45 d0 in if length stuff = 3 then stuff @ [d1, d2] else data)
      | _ \<Rightarrow> data)"

definition split_zone :: "nat list list \<Rightarrow> nat list list" where
  "split_zone data =
     (case data of
        [d0, d1, d2, s] \<Rightarrow>
          (case find_code 43 s of
             Some (Suc i) \<Rightarrow> [d0, d1, d2, take (Suc i) s, drop (Suc i + 1) s]
           | _ \<Rightarrow> data @ [[]])
      | _ \<Rightarrow> data)"

text \<open>The zone field: a name of the table or a signed \<open>hhmm\<close> number.\<close>

definition zone_offset :: "bool \<Rightarrow> nat list \<Rightarrow> int option" where
  "zone_offset u tz =
     (let tzu = upper_of u tz;
          raw = (case map_of timezones tzu of Some v \<Rightarrow> Some v | None \<Rightarrow> int_of u tzu)
      in case raw of
           None \<Rightarrow> None
         | Some v \<Rightarrow>
             if v = 0 then Some 0
             else if v < 0 then Some (- (((- v) div 100) * 3600 + ((- v) mod 100) * 60))
             else Some ((v div 100) * 3600 + (v mod 100) * 60))"

definition full_year :: "int \<Rightarrow> int" where
  "full_year yy = (if yy < 100 then (if yy > 68 then yy + 1900 else yy + 2000) else yy)"

definition time_fields :: "nat list \<Rightarrow> (nat list \<times> nat list \<times> nat list) option" where
  "time_fields tm =
     (case split_on 58 tm of
        [thh, tmm] \<Rightarrow> Some (thh, tmm, lit ''0'')
      | [thh, tmm, tss] \<Rightarrow> Some (thh, tmm, tss)
      | _ \<Rightarrow> None)"

definition month_number :: "nat list \<Rightarrow> int" where
  "month_number mm = (let k = int (index_of mm monthnames) + 1 in if k > 12 then k - 12 else k)"

text \<open>The five fields \<open>[dd, mm, yy, tm, tz]\<close>, from the month name on.\<close>

definition parse_fields :: "bool \<Rightarrow> nat list \<Rightarrow> nat list \<Rightarrow> nat list \<Rightarrow> nat list \<Rightarrow> nat list \<Rightarrow> pyerr + timetuple option" where
  "parse_fields u dd0 mm0 yy0 tm0 tz0 =
     (let mm1 = lower_of u mm0;
          swapped = mm1 \<notin> set monthnames;
          dd1 = (if swapped then mm1 else dd0);
          mm2 = (if swapped then lower_of u dd0 else mm1)
      in if mm2 \<notin> set monthnames then Inr None
         else
           (case strip_comma dd1 of
              Inl e \<Rightarrow> Inl e
            | Inr dd \<Rightarrow>
                (let colon = (case find_code 58 yy0 of Some (Suc i) \<Rightarrow> True | _ \<Rightarrow> False);
                     yy1 = (if colon then tm0 else yy0);
                     tm1 = (if colon then yy0 else tm0)
                 in case strip_comma yy1 of
                      Inl e \<Rightarrow> Inl e
                    | Inr yy2 \<Rightarrow>
                        (case yy2 of
                           [] \<Rightarrow> Inl IndexError
                         | y0 # _ \<Rightarrow>
                             (let yy = (if isdigit_of u y0 then yy2 else tz0);
                                  tz = (if isdigit_of u y0 then tz0 else yy2)
                              in case strip_comma tm1 of
                                   Inl e \<Rightarrow> Inl e
                                 | Inr tm \<Rightarrow>
                                     (case time_fields tm of
                                        None \<Rightarrow> Inr None
                                      | Some (thh, tmm, tss) \<Rightarrow>
                                          (case (int_of u yy, int_of u dd, int_of u thh, int_of u tmm, int_of u tss) of
                                             (Some y, Some d, Some h, Some mi, Some s) \<Rightarrow>
                                               Inr (Some (full_year y, month_number mm2, d, h, mi, s,
                                                          zone_offset u tz))
                                           | _ \<Rightarrow> Inr None)))))))"

definition parsedate_tz :: "pytext option \<Rightarrow> pyerr + timetuple option" where
  "parsedate_tz stamp =
     (case stamp of
        None \<Rightarrow> Inl AttributeError
      | Some t \<Rightarrow>
          (case drop_dayname (is_unicode t)
                  (split_ws (isspace_of (is_unicode t)) [] (codes t)) of
             Inl e \<Rightarrow> Inl e
           | Inr data \<Rightarrow>
               (case split_zone (undo_rfc850 data) of
                  dd # mm # yy # tm # tz # _ \<Rightarrow> parse_fields (is_unicode t) dd mm yy tm tz
                | _ \<Rightarrow> Inr None)))"

text \<open>
  \<open>mktime_tz\<close>: the UTC timestamp of a time tuple. A tuple without a zone is read as
  local time. The local zone is a parameter of the model, \<open>tzoff\<close>: its offset from UTC
  in seconds, east positive.
\<close>

definition mktime_tz :: "int \<Rightarrow> timetuple option \<Rightarrow> pyerr + int" where
  "mktime_tz tzoff data =
     (case data of
        None \<Rightarrow> Inl TypeError
      | Some (y, m, d, hh, mm, ss, zone) \<Rightarrow>
          (case timegm y m d hh mm ss of
             Inl e \<Rightarrow> Inl e
           | Inr t \<Rightarrow> Inr (t - (case zone of None \<Rightarrow> tzoff | Some z \<Rightarrow> z))))"

text \<open>\<open>parse_date_time\<close> of \<open>rss20\<close>.\<close>

definition parse_date_time :: "int \<Rightarrow> pytext option \<Rightarrow> pyerr + datetime" where
  "parse_date_time tzoff stamp =
     (case parsedate_tz stamp of
        Inl e \<Rightarrow> Inl e
      | Inr ts \<Rightarrow>
          (case mktime_tz tzoff ts of
             Inl e \<Rightarrow> Inl e
           | Inr t \<Rightarrow> fromtimestamp tzoff t))"

subsection \<open>datetime.strptime with the format of Atom\<close>

text \<open>
  \<open>datetime.strptime(s, "%Y-%m-%dT%H:%M:%SZ")\<close>. The format compiles to a regular
  expression, matched ignoring case, that must consume the whole string: four digits,
  then fields of one or two digits between the literal separators. A field is the run of
  digits up to its separator and must be one of the forms the directive allows. The
  fields must then make a date that exists and a second below 60. Every failure is
  \<open>ValueError\<close>; a value that is no string is \<open>TypeError\<close>.
\<close>

text \<open>A field of one or two digits with its bounds; \<open>lo1\<close> bounds the one-digit form.\<close>

definition field2 :: "int \<Rightarrow> int \<Rightarrow> int \<Rightarrow> nat list \<Rightarrow> int option" where
  "field2 lo1 lo hi s =
     (case s of
        [a] \<Rightarrow> if is_digit a \<and> lo1 \<le> int a - 48 then Some (int a - 48) else None
      | [a, b] \<Rightarrow>
          if is_digit a \<and> is_digit b \<and> lo \<le> digits_val 0 s \<and> digits_val 0 s \<le> hi
          then Some (digits_val 0 s) else None
      | _ \<Rightarrow> None)"

text \<open>\<open>%d\<close> also allows a blank before a single digit.\<close>

definition day_field :: "nat list \<Rightarrow> int option" where
  "day_field s =
     (case s of
        [a, b] \<Rightarrow> if a = 32 then field2 1 1 31 [b] else field2 1 1 31 s
      | _ \<Rightarrow> field2 1 1 31 s)"

definition year_field :: "nat list \<Rightarrow> int option" where
  "year_field s = (if length s = 4 \<and> list_all is_digit s then Some (digits_val 0 s) else None)"

definition strptime_atom :: "pytext option \<Rightarrow> pyerr + datetime" where
  "strptime_atom stamp =
     (case stamp of
        None \<Rightarrow> Inl TypeError
      | Some t \<Rightarrow>
          (case split_on 84 (map upper_code (codes t)) of
             [date, time] \<Rightarrow>
               (case (split_on 45 date, split_on 58 time) of
                  ([y, m, d], [hh, mm, sz]) \<Rightarrow>
                    (if sz \<noteq> [] \<and> last sz = 90 then
                       (case (year_field y, field2 1 1 12 m, day_field d,
                              field2 0 0 23 hh, field2 0 0 59 mm, field2 0 0 61 (butlast sz)) of
                          (Some yv, Some mv, Some dv, Some hv, Some miv, Some sv) \<Rightarrow>
                            if 1 \<le> yv \<and> dv \<le> days_in_month yv mv \<and> sv \<le> 59
                            then Inr (DateTime yv mv dv hv miv sv)
                            else Inl ValueError
                        | _ \<Rightarrow> Inl ValueError)
                     else Inl ValueError)
                | _ \<Rightarrow> Inl ValueError)
           | _ \<Rightarrow> Inl ValueError))"


section \<open>Entity unescaping\<close>

text \<open>
  \<open>name2codepoint\<close> of the standard module \<open>htmlentitydefs\<close>: the 252 entity names of
  HTML 4 with their code points. The names are ASCII letters and digits.
\<close>

definition name2codepoint :: "(string \<times> nat) list" where
  "name2codepoint =
     [
      (''quot'', 34), (''amp'', 38), (''lt'', 60), (''gt'', 62), (''nbsp'', 160),
      (''iexcl'', 161), (''cent'', 162), (''pound'', 163), (''curren'', 164), (''yen'', 165),
      (''brvbar'', 166), (''sect'', 167), (''uml'', 168), (''copy'', 169), (''ordf'', 170),
      (''laquo'', 171), (''not'', 172), (''shy'', 173), (''reg'', 174), (''macr'', 175),
      (''deg'', 176), (''plusmn'', 177), (''sup2'', 178), (''sup3'', 179), (''acute'', 180),
      (''micro'', 181), (''para'', 182), (''middot'', 183), (''cedil'', 184), (''sup1'', 185),
      (''ordm'', 186), (''raquo'', 187), (''frac14'', 188), (''frac12'', 189),
      (''frac34'', 190), (''iquest'', 191), (''Agrave'', 192), (''Aacute'', 193),
      (''Acirc'', 194), (''Atilde'', 195), (''Auml'', 196), (''Aring'', 197), (''AElig'', 198),
      (''Ccedil'', 199), (''Egrave'', 200), (''Eacute'', 201), (''Ecirc'', 202),
      (''Euml'', 203), (''Igrave'', 204), (''Iacute'', 205), (''Icirc'', 206), (''Iuml'', 207),
      (''ETH'', 208), (''Ntilde'', 209), (''Ograve'', 210), (''Oacute'', 211),
      (''Ocirc'', 212), (''Otilde'', 213), (''Ouml'', 214), (''times'', 215),
      (''Oslash'', 216), (''Ugrave'', 217), (''Uacute'', 218), (''Ucirc'', 219),
      (''Uuml'', 220), (''Yacute'', 221), (''THORN'', 222), (''szlig'', 223),
      (''agrave'', 224), (''aacute'', 225), (''acirc'', 226), (''atilde'', 227),
      (''auml'', 228), (''aring'', 229), (''aelig'', 230), (''ccedil'', 231),
      (''egrave'', 232), (''eacute'', 233), (''ecirc'', 234), (''euml'', 235),
      (''igrave'', 236), (''iacute'', 237), (''icirc'', 238), (''iuml'', 239), (''eth'', 240),
      (''ntilde'', 241), (''ograve'', 242), (''oacute'', 243), (''ocirc'', 244),
      (''otilde'', 245), (''ouml'', 246), (''divide'', 247), (''oslash'', 248),
      (''ugrave'', 249), (''uacute'', 250), (''ucirc'', 251), (''uuml'', 252),
      (''yacute'', 253), (''thorn'', 254), (''yuml'', 255), (''OElig'', 338), (''oelig'', 339),
      (''Scaron'', 352), (''scaron'', 353), (''Yuml'', 376), (''fnof'', 402), (''circ'', 710),
      (''tilde'', 732), (''Alpha'', 913), (''Beta'', 914), (''Gamma'', 915), (''Delta'', 916),
      (''Epsilon'', 917), (''Zeta'', 918), (''Eta'', 919), (''Theta'', 920), (''Iota'', 921),
      (''Kappa'', 922), (''Lambda'', 923), (''Mu'', 924), (''Nu'', 925), (''Xi'', 926),
      (''Omicron'', 927), (''Pi'', 928), (''Rho'', 929), (''Sigma'', 931), (''Tau'', 932),
      (''Upsilon'', 933), (''Phi'', 934), (''Chi'', 935), (''Psi'', 936), (''Omega'', 937),
      (''alpha'', 945), (''beta'', 946), (''gamma'', 947), (''delta'', 948),
      (''epsilon'', 949), (''zeta'', 950), (''eta'', 951), (''theta'', 952), (''iota'', 953),
      (''kappa'', 954), (''lambda'', 955), (''mu'', 956), (''nu'', 957), (''xi'', 958),
      (''omicron'', 959), (''pi'', 960), (''rho'', 961), (''sigmaf'', 962), (''sigma'', 963),
      (''tau'', 964), (''upsilon'', 965), (''phi'', 966), (''chi'', 967), (''psi'', 968),
      (''omega'', 969), (''thetasym'', 977), (''upsih'', 978), (''piv'', 982),
      (''ensp'', 8194), (''emsp'', 8195), (''thinsp'', 8201), (''zwnj'', 8204),
      (''zwj'', 8205), (''lrm'', 8206), (''rlm'', 8207), (''ndash'', 8211), (''mdash'', 8212),
      (''lsquo'', 8216), (''rsquo'', 8217), (''sbquo'', 8218), (''ldquo'', 8220),
      (''rdquo'', 8221), (''bdquo'', 8222), (''dagger'', 8224), (''Dagger'', 8225),
      (''bull'', 8226), (''hellip'', 8230), (''permil'', 8240), (''prime'', 8242),
      (''Prime'', 8243), (''lsaquo'', 8249), (''rsaquo'', 8250), (''oline'', 8254),
      (''frasl'', 8260), (''euro'', 8364), (''image'', 8465), (''weierp'', 8472),
      (''real'', 8476), (''trade'', 8482), (''alefsym'', 8501), (''larr'', 8592),
      (''uarr'', 8593), (''rarr'', 8594), (''darr'', 8595), (''harr'', 8596),
      (''crarr'', 8629), (''lArr'', 8656), (''uArr'', 8657), (''rArr'', 8658),
      (''dArr'', 8659), (''hArr'', 8660), (''forall'', 8704), (''part'', 8706),
      (''exist'', 8707), (''empty'', 8709), (''nabla'', 8711), (''isin'', 8712),
      (''notin'', 8713), (''ni'', 8715), (''prod'', 8719), (''sum'', 8721), (''minus'', 8722),
      (''lowast'', 8727), (''radic'', 8730), (''prop'', 8733), (''infin'', 8734),
      (''ang'', 8736), (''and'', 8743), (''or'', 8744), (''cap'', 8745), (''cup'', 8746),
      (''int'', 8747), (''there4'', 8756), (''sim'', 8764), (''cong'', 8773),
      (''asymp'', 8776), (''ne'', 8800), (''equiv'', 8801), (''le'', 8804), (''ge'', 8805),
      (''sub'', 8834), (''sup'', 8835), (''nsub'', 8836), (''sube'', 8838), (''supe'', 8839),
      (''oplus'', 8853), (''otimes'', 8855), (''perp'', 8869), (''sdot'', 8901),
      (''lceil'', 8968), (''rceil'', 8969), (''lfloor'', 8970), (''rfloor'', 8971),
      (''lang'', 9001), (''rang'', 9002), (''loz'', 9674), (''spades'', 9824),
      (''clubs'', 9827), (''hearts'', 9829), (''diams'', 9830)
     ]"

text \<open>
  \<open>unescape\<close> is \<open>re.sub('&(name|name|...);', lambda m: unichr(name2codepoint[m.group(1)]), s)\<close>.
  The pattern matches \<open>&\<close>, one of the names, \<open>;\<close>. No name holds a \<open>;\<close>, so a match at
  an \<open>&\<close> is the text up to the next \<open>;\<close>, when that text is a name of the table;
  matches are found from left to right and do not overlap.
\<close>

definition entity_at :: "nat list \<Rightarrow> (nat \<times> nat list) option" where
  "entity_at cs =
     (case dropWhile (\<lambda>c. c \<noteq> 59) cs of
        [] \<Rightarrow> None
      | semicolon # rest \<Rightarrow>
          (let nm = takeWhile (\<lambda>c. c \<noteq> 59) cs in
           if list_all (\<lambda>c. c < 256) nm
           then (case map_of name2codepoint (map char_of nm) of
                   Some cp \<Rightarrow> Some (cp, rest)
                 | None \<Rightarrow> None)
           else None))"

lemma entity_at_shorter: "entity_at cs = Some (cp, rest) \<Longrightarrow> length rest < Suc (length cs)"
proof -
  assume a: "entity_at cs = Some (cp, rest)"
  then obtain semicolon where "dropWhile (\<lambda>c. c \<noteq> 59) cs = semicolon # rest"
    by (auto simp: entity_at_def Let_def split: list.splits if_splits option.splits)
  then have "length rest < length (dropWhile (\<lambda>c. c \<noteq> 59) cs)" by simp
  also have "\<dots> \<le> length cs" by (rule length_dropWhile_le)
  finally show ?thesis by simp
qed

function sub_entities :: "nat list \<Rightarrow> nat list" where
  "sub_entities [] = []"
| "sub_entities (c # cs) =
     (if c = 38 then
        (case entity_at cs of
           Some (cp, rest) \<Rightarrow> cp # sub_entities rest
         | None \<Rightarrow> c # sub_entities cs)
      else c # sub_entities cs)"
  by pat_completeness auto
termination
  by (relation "measure length") (auto dest: entity_at_shorter)

text \<open>
  The result of \<open>re.sub\<close> joins the pieces. With no match it is the subject itself. With
  a match a piece is a \<open>unicode\<close> (the value of \<open>unichr\<close>), so the result is a \<open>unicode\<close>,
  and the pieces of a \<open>str\<close> subject are decoded as ASCII on the way: a byte above 127
  raises. A match makes the string shorter, so the result differs from the subject
  exactly when there was one. A subject that is \<open>None\<close> raises \<open>TypeError\<close>.
\<close>

fun unescape :: "pytext option \<Rightarrow> pyerr + pytext" where
  "unescape None = Inl TypeError"
| "unescape (Some (Uni cs)) = Inr (Uni (sub_entities cs))"
| "unescape (Some (Str s)) =
     (if sub_entities (map of_char s) = map of_char s then Inr (Str s)
      else if is_ascii (Str s) then Inr (Uni (sub_entities (map of_char s)))
      else Inl UnicodeError)"

section \<open>The parsed document\<close>

text \<open>
  \<open>ElementTree.fromstring\<close> is the XML parser of the standard library. Its outcome on
  the input is the input of the model: \<open>None\<close> when it raises \<open>ParseError\<close>, the root
  element otherwise. An element has a tag, attributes, a text (\<open>None\<close> when the element
  has none) and children. Tags and attribute values are compared with ASCII constants
  only and are byte strings here.
\<close>

datatype element =
  Element (el_tag: string) (el_attrib: "(string \<times> string) list")
          (el_text: "pytext option") (el_children: "element list")

text \<open>\<open>e.find(tag)\<close>: the first child with the tag; \<open>e.findall(tag)\<close>: all of them, in order.\<close>

definition find_elem :: "element \<Rightarrow> string \<Rightarrow> element option" where
  "find_elem e k = List.find (\<lambda>c. el_tag c = k) (el_children e)"

definition findall :: "element \<Rightarrow> string \<Rightarrow> element list" where
  "findall e k = filter (\<lambda>c. el_tag c = k) (el_children e)"

definition endswith :: "string \<Rightarrow> string \<Rightarrow> bool" where
  "endswith s suf = (take (length suf) (rev s) = rev suf)"

text \<open>\<open>sep.join(xs)\<close>.\<close>

fun join :: "string \<Rightarrow> string list \<Rightarrow> string" where
  "join sep [] = []"
| "join sep [x] = x"
| "join sep (x # y # ys) = x @ sep @ join sep (y # ys)"

section \<open>The feed parsers\<close>

text \<open>
  A normalized item is the dictionary with the keys \<open>title\<close>, \<open>content\<close>, \<open>date\<close> and
  \<open>link\<close>. A text of the dictionary is the \<open>text\<close> of an element and may be \<open>None\<close>.
\<close>

record feed_item =
  title :: "pytext option"
  content :: "pytext option"
  date :: datetime
  link :: "pytext option"

type_synonym defaults = "string \<rightharpoonup> pytext option"

text \<open>
  A generator, once its first \<open>next()\<close> has returned: the items it yields, in order, and
  the exception that ends it, if one does. The consumer sees the items before the
  exception.
\<close>

type_synonym items = "feed_item list \<times> pyerr option"

type_synonym parsed = "pyerr + (defaults \<times> items)"

text \<open>
  The working dictionary \<open>entry\<close> of both parsers: a key is absent (\<open>None\<close>) or holds the
  text of an element, which may itself be \<open>None\<close>.
\<close>

record entry =
  e_title :: "pytext option option"
  e_date :: "pytext option option"
  e_link :: "pytext option option"
  e_content :: "pytext option option"

subsection \<open>RSS 2.0\<close>

text \<open>\<open>defaults[v] = channel.find(k).text\<close>, skipped when the channel has no such child.\<close>

definition set_default :: "element \<Rightarrow> string \<Rightarrow> string \<Rightarrow> defaults \<Rightarrow> defaults" where
  "set_default channel k v d =
     (case find_elem channel k of None \<Rightarrow> d | Some e \<Rightarrow> d(v \<mapsto> el_text e))"

definition rss20_defaults :: "element \<Rightarrow> defaults" where
  "rss20_defaults channel =
     set_default channel ''language'' ''lang''
       (set_default channel ''link'' ''www_root''
         (set_default channel ''title'' ''sitename'' Map.empty))"

text \<open>\<open>item.find(v).text\<close> under \<open>except (AttributeError, TypeError): pass\<close>.\<close>

definition text_of :: "element \<Rightarrow> string \<Rightarrow> pytext option option" where
  "text_of item v = map_option el_text (find_elem item v)"

text \<open>
  The loop that fills \<open>entry\<close>. Only \<open>unescape\<close> can raise something the handler does
  not catch, and the three other keys have no effect, so the order of the dictionary's
  keys does not show.
\<close>

definition rss20_entry :: "element \<Rightarrow> pyerr + entry" where
  "rss20_entry item =
     (let base = \<lparr>e_title = text_of item ''title'', e_date = text_of item ''pubDate'',
                  e_link = text_of item ''link'', e_content = None\<rparr>
      in case find_elem item ''description'' of
           None \<Rightarrow> Inr base
         | Some d \<Rightarrow>
             (case unescape (el_text d) of
                Inr c \<Rightarrow> Inr (base\<lparr>e_content := Some (Some c)\<rparr>)
              | Inl TypeError \<Rightarrow> Inr base
              | Inl AttributeError \<Rightarrow> Inr base
              | Inl e \<Rightarrow> Inl e))"

definition rss20_missing_msg :: string where
  "rss20_missing_msg = ''invalid RSS 2.0 feed: provide at least title, link, content and pubDate!''"

text \<open>One turn of the loop over the items: an item is yielded or an exception raised.\<close>

definition rss20_item :: "int \<Rightarrow> element \<Rightarrow> pyerr + feed_item" where
  "rss20_item tzoff item =
     (case rss20_entry item of
        Inl e \<Rightarrow> Inl e
      | Inr en \<Rightarrow>
          (case (e_title en, e_date en, e_link en, e_content en) of
             (Some t, Some d, Some l, Some c) \<Rightarrow>
               (case parse_date_time tzoff d of
                  Inl e \<Rightarrow> Inl e
                | Inr dt \<Rightarrow> Inr \<lparr>title = t, content = c, date = dt, link = l\<rparr>)
           | _ \<Rightarrow> Inl (AcrylamidException rss20_missing_msg)))"

text \<open>The generator's loop: it stops at the first exception.\<close>

fun run_items :: "(element \<Rightarrow> pyerr + feed_item) \<Rightarrow> element list \<Rightarrow> items" where
  "run_items f [] = ([], None)"
| "run_items f (x # xs) =
     (case f x of
        Inl e \<Rightarrow> ([], Some e)
      | Inr i \<Rightarrow> (case run_items f xs of (rest, e) \<Rightarrow> (i # rest, e)))"

text \<open>
  \<open>rss20(xml)\<close>, run to its first \<open>yield\<close> as \<open>parse\<close> does with \<open>res.next()\<close>: an exception
  raised before the defaults are yielded, or the defaults and the generator.
\<close>

fun rss20 :: "int \<Rightarrow> element option \<Rightarrow> parsed" where
  "rss20 tzoff None = Inl (InvalidSource ''no well-formed XML'')"
| "rss20 tzoff (Some tree) =
     (if el_tag tree \<noteq> ''rss'' \<or> map_of (el_attrib tree) ''version'' = Some ''2.0''
      then Inl (InvalidSource ''no RSS 2.0 feed'')
      else
        (case el_children tree of
           [] \<Rightarrow> Inl IndexError
         | channel # others \<Rightarrow>
             Inr (rss20_defaults channel, run_items (rss20_item tzoff) (findall channel ''item''))))"

subsection \<open>Atom\<close>

definition ns :: string where
  "ns = ''{http://www.w3.org/2005/Atom}''"

text \<open>
  The \<open>try\<close> block of an entry: four assignments in a row; the first child that is not
  there ends the block, and the later keys stay unset.
\<close>

definition atom_entry :: "element \<Rightarrow> entry" where
  "atom_entry item =
     (let none = \<lparr>e_title = None, e_date = None, e_link = None, e_content = None\<rparr> in
      case find_elem item (ns @ ''title'') of
        None \<Rightarrow> none
      | Some t \<Rightarrow>
          (case find_elem item (ns @ ''updated'') of
             None \<Rightarrow> none\<lparr>e_title := Some (el_text t)\<rparr>
           | Some u \<Rightarrow>
               (case find_elem item (ns @ ''link'') of
                  None \<Rightarrow> none\<lparr>e_title := Some (el_text t), e_date := Some (el_text u)\<rparr>
                | Some l \<Rightarrow>
                    \<lparr>e_title = Some (el_text t), e_date = Some (el_text u),
                     e_link = Some (el_text l), e_content = text_of item (ns @ ''content'')\<rparr>)))"

text \<open>
  \<open>if item.find(ns + 'content').get('type', 'text') == 'html':
  entry['content'] = unescape(entry['content'])\<close>, outside the \<open>try\<close> block.
\<close>

definition atom_unescape :: "element \<Rightarrow> entry \<Rightarrow> pyerr + entry" where
  "atom_unescape item en =
     (case find_elem item (ns @ ''content'') of
        None \<Rightarrow> Inl AttributeError
      | Some c \<Rightarrow>
          if (case map_of (el_attrib c) ''type'' of None \<Rightarrow> ''text'' | Some ty \<Rightarrow> ty) = ''html''
          then
            (case e_content en of
               None \<Rightarrow> Inl (KeyError ''content'')
             | Some raw \<Rightarrow>
                 (case unescape raw of
                    Inl e \<Rightarrow> Inl e
                  | Inr u \<Rightarrow> Inr (en\<lparr>e_content := Some (Some u)\<rparr>)))
          else Inr en)"

definition atom_missing_msg :: string where
  "atom_missing_msg = ''invalid Atom feed: provide at least title, link, content and updated!''"

definition atom_item :: "element \<Rightarrow> pyerr + feed_item" where
  "atom_item item =
     (case atom_unescape item (atom_entry item) of
        Inl e \<Rightarrow> Inl e
      | Inr en \<Rightarrow>
          (case (e_title en, e_date en, e_link en, e_content en) of
             (Some t, Some d, Some l, Some c) \<Rightarrow>
               (case strptime_atom d of
                  Inl e \<Rightarrow> Inl e
                | Inr dt \<Rightarrow> Inr \<lparr>title = t, content = c, date = dt, link = l\<rparr>)
           | _ \<Rightarrow> Inl (AcrylamidException atom_missing_msg)))"

text \<open>The three defaults of Atom; a child that is not there raises \<open>AttributeError\<close>.\<close>

definition atom_defaults :: "element \<Rightarrow> pyerr + defaults" where
  "atom_defaults tree =
     (case find_elem tree (ns @ ''title'') of
        None \<Rightarrow> Inl AttributeError
      | Some t \<Rightarrow>
          (case find_elem tree (ns @ ''id'') of
             None \<Rightarrow> Inl AttributeError
           | Some i \<Rightarrow>
               (case find_elem tree (ns @ ''author'') of
                  None \<Rightarrow> Inl AttributeError
                | Some a \<Rightarrow>
                    (case find_elem a (ns @ ''name'') of
                       None \<Rightarrow> Inl AttributeError
                     | Some n \<Rightarrow>
                         Inr [''title'' \<mapsto> el_text t, ''www_root'' \<mapsto> el_text i,
                              ''author'' \<mapsto> el_text n]))))"

fun atom :: "element option \<Rightarrow> parsed" where
  "atom None = Inl (InvalidSource ''no well-formed XML'')"
| "atom (Some tree) =
     (if \<not> endswith (el_tag tree) ''/2005/Atom}feed'' then Inl (InvalidSource ''no Atom feed'')
      else
        (case atom_defaults tree of
           Inl e \<Rightarrow> Inl e
         | Inr d \<Rightarrow> Inr (d, run_items atom_item (findall tree (ns @ ''entry'')))))"

subsection \<open>parse\<close>

text \<open>
  \<open>for method in (rss20, atom)\<close>: the first method whose first \<open>next()\<close> does not raise
  \<open>InvalidSource\<close> decides; any other exception leaves \<open>parse\<close>. When both raise
  \<open>InvalidSource\<close>, the messages are joined.
\<close>

fun parse :: "int \<Rightarrow> element option \<Rightarrow> parsed" where
  "parse tzoff doc =
     (case rss20 tzoff doc of
        Inl (InvalidSource m1) \<Rightarrow>
          (case atom doc of
             Inl (InvalidSource m2) \<Rightarrow>
               Inl (AcrylamidException (''unable to parse source, '' @ join ''; '' [m1, m2]))
           | r \<Rightarrow> r)
      | r \<Rightarrow> r)"

section \<open>fetch\<close>

text \<open>
  The world of \<open>fetch\<close>: the files \<open>open\<close> can read, what the successive calls of
  \<open>urlopen\<close> will do, and what the user will type at the successive prompts. \<open>urlopen\<close>
  returns a response with a status code and a body, raises \<open>HTTPError\<close> with a message,
  or raises \<open>URLError\<close> when the transport fails (\<open>HTTPError\<close> is a subclass of
  \<open>URLError\<close>, so the handler of \<open>fetch\<close> does not catch the latter). \<open>b64encode\<close> is a
  parameter. Next to its result \<open>fetch\<close> returns what it did: the requests it sent, each
  with its Authorization header, and the prompts it showed.
\<close>

datatype response = Response nat string | RaisesHTTPError string | RaisesURLError string

datatype io_event = Requested string "string option" | Prompted

definition startswith :: "string \<Rightarrow> string \<Rightarrow> bool" where
  "startswith s pre = (take (length pre) s = pre)"

text \<open>\<open>'%i' % n\<close> for a status code.\<close>

function show_nat :: "nat \<Rightarrow> string" where
  "show_nat n =
     (if n < 10 then [char_of (48 + n)] else show_nat (n div 10) @ [char_of (48 + n mod 10)])"
  by pat_completeness auto
termination
  by (relation "measure id") auto

declare show_nat.simps [simp del]

definition invalid_status :: "nat \<Rightarrow> string" where
  "invalid_status code = ''invalid status code '' @ show_nat code @ '', aborting.''"

text \<open>\<open>if auth: req.add_header('Authorization', 'Basic ' + b64encode(auth))\<close>.\<close>

definition authorization :: "(string \<Rightarrow> string) \<Rightarrow> string option \<Rightarrow> string option" where
  "authorization b64encode auth =
     (case auth of
        None \<Rightarrow> None
      | Some a \<Rightarrow> if a = [] then None else Some (''Basic '' @ b64encode a))"

text \<open>
  \<open>fetch(url, auth)\<close>. The result is \<open>None\<close> when the list of \<open>urlopen\<close> outcomes ends
  before the call has returned or raised: the model says nothing about a longer run.
  After a 401 the function calls itself with the credentials typed in, and drops what
  that call returns: control goes on to the \<open>raise\<close> of the last line. An exception of
  the inner call leaves the outer call as it is. A path that \<open>open\<close> cannot read raises
  \<open>IOError\<close>, which the handler for \<open>OSError\<close> does not catch; the end of the input at a
  prompt raises \<open>EOFError\<close>.
\<close>

fun fetch :: "(string \<Rightarrow> string) \<Rightarrow> (string \<rightharpoonup> string) \<Rightarrow> string \<Rightarrow> string option \<Rightarrow>
    response list \<Rightarrow> (string \<times> string) list \<Rightarrow> (pyerr + string) option \<times> io_event list" where
  "fetch b64encode files url auth net console =
     (if \<not> (startswith url ''http://'' \<or> startswith url ''https://'') then
        (case files url of
           Some data \<Rightarrow> (Some (Inr data), [])
         | None \<Rightarrow> (Some (Inl (IOError url)), []))
      else
        (case net of
           [] \<Rightarrow> (None, [])
         | r # net' \<Rightarrow>
             (case r of
                RaisesHTTPError msg \<Rightarrow>
                  (Some (Inl (AcrylamidException msg)), [Requested url (authorization b64encode auth)])
              | RaisesURLError msg \<Rightarrow>
                  (Some (Inl (URLError msg)), [Requested url (authorization b64encode auth)])
              | Response code body \<Rightarrow>
                  if code = 401 then
                    (case console of
                       [] \<Rightarrow> (Some (Inl EOFError),
                              [Requested url (authorization b64encode auth), Prompted])
                     | (user, passwd) # console' \<Rightarrow>
                         (case fetch b64encode files url (Some (user @ '':'' @ passwd)) net' console' of
                            (None, evs) \<Rightarrow>
                              (None, Requested url (authorization b64encode auth) # Prompted # evs)
                          | (Some (Inl e), evs) \<Rightarrow>
                              (Some (Inl e), Requested url (authorization b64encode auth) # Prompted # evs)
                          | (Some (Inr dropped), evs) \<Rightarrow>
                              (Some (Inl (AcrylamidException (invalid_status code))),
                               Requested url (authorization b64encode auth) # Prompted # evs)))
                  else if code = 200 then
                    (Some (Inr body), [Requested url (authorization b64encode auth)])
                  else
                    (Some (Inl (AcrylamidException (invalid_status code))),
                     [Requested url (authorization b64encode auth)]))))"

section \<open>build\<close>

text \<open>
  What \<open>build\<close> takes from the rest of acrylamid and from the standard library is a
  parameter of the model: \<open>system\<close> (the external programs of \<open>convert\<close>), \<open>escape\<close>,
  \<open>date.strftime\<close>, the permalink that \<open>FileEntry\<close> computes from the file just written,
  the path of \<open>urlsplit\<close>, and \<open>repr\<close> for the \<open>%r\<close> of the error message. Each may
  raise.
\<close>

record collab =
  system :: "cmd \<Rightarrow> string \<Rightarrow> sys_result"
  escape :: "pytext option \<Rightarrow> pyerr + pytext"
  strftime :: "datetime \<Rightarrow> string \<Rightarrow> pyerr + string"
  entry_permalink :: "string \<Rightarrow> pyerr + string"
  urlsplit_path :: "pytext option \<Rightarrow> pyerr + pytext"
  repr :: "string \<Rightarrow> string"

record conf =
  date_format :: string
  entries_dir :: string

text \<open>
  The state \<open>build\<close> works on: the content files with their bytes, the directories made,
  the paths announced with \<open>event.create\<close>, what \<open>convert\<close> did, and the temporary
  files left behind. \<open>mkstemp\<close> returns a new file under a name no file has, so a
  temporary file is kept apart from the content files: it is written, and then either
  becomes a content file by \<open>os.rename\<close> or stays behind. \<open>os.makedirs\<close> and
  \<open>os.rename\<close> are taken to succeed.
\<close>

record store =
  files :: "string \<rightharpoonup> string"
  dirs :: "string set"
  created :: "string list"
  effects :: "effect list"
  temps :: "string list"

subsection \<open>Paths\<close>

text \<open>\<open>os.path.dirname\<close>, \<open>os.path.join\<close> of two parts, and \<open>p.rsplit('/', 1)[0]\<close>.\<close>

definition dirname :: "string \<Rightarrow> string" where
  "dirname p =
     (let head = rev (dropWhile (\<lambda>c. c \<noteq> CHR ''/'') (rev p)) in
      if head \<noteq> [] \<and> \<not> list_all (\<lambda>c. c = CHR ''/'') head
      then rev (dropWhile (\<lambda>c. c = CHR ''/'') (rev head))
      else head)"

definition path_join :: "string \<Rightarrow> string \<Rightarrow> string" where
  "path_join a b =
     (if startswith b ''/'' then b
      else if a = [] \<or> endswith a ''/'' then a @ b
      else a @ ''/'' @ b)"

definition rsplit_head :: "string \<Rightarrow> string" where
  "rsplit_head p =
     (if CHR ''/'' \<in> set p then rev (tl (dropWhile (\<lambda>c. c \<noteq> CHR ''/'') (rev p))) else p)"

text \<open>The destination of an entry with the permalink \<open>pl\<close>: \<open>p\<close> and \<open>filepath\<close> of \<open>create\<close>.\<close>

definition entry_dir :: "conf \<Rightarrow> string \<Rightarrow> string" where
  "entry_dir cf pl = path_join (entries_dir cf) (drop 1 (dirname pl))"

definition filepath_of :: "conf \<Rightarrow> string \<Rightarrow> string" where
  "filepath_of cf pl = entry_dir cf pl @ ''.txt''"

subsection \<open>Writing the temporary file\<close>

text \<open>
  \<open>'...%s\n' % x\<close> with a constant ASCII format: a \<open>str\<close> for a \<open>str\<close>, a \<open>unicode\<close> for a
  \<open>unicode\<close>.
\<close>

fun fmt_line :: "string \<Rightarrow> pytext \<Rightarrow> pytext" where
  "fmt_line pre (Str s) = Str (pre @ s @ [CHR 0x0A])"
| "fmt_line pre (Uni cs) = Uni (map of_char pre @ cs @ [10])"

text \<open>
  \<open>f.write(x)\<close> on a file opened with \<open>'wb'\<close>: a \<open>str\<close> is written as it is, a \<open>unicode\<close> is
  encoded with the ASCII codec first, and \<open>None\<close> is refused.
\<close>

fun py_write :: "pytext option \<Rightarrow> pyerr + string" where
  "py_write None = Inl TypeError"
| "py_write (Some (Str s)) = Inr s"
| "py_write (Some (Uni cs)) = (if is_ascii (Uni cs) then Inr (map char_of cs) else Inl UnicodeError)"

text \<open>
  The \<open>with\<close> block: the values written, in order. An exception while a value is computed
  or written ends the block; what was written before stays in the file.
\<close>

fun write_chunks :: "(pyerr + pytext option) list \<Rightarrow> string \<Rightarrow> string \<times> pyerr option" where
  "write_chunks [] acc = (acc, None)"
| "write_chunks (c # cs) acc =
     (case c of
        Inl e \<Rightarrow> (acc, Some e)
      | Inr t \<Rightarrow>
          (case py_write t of
             Inl e \<Rightarrow> (acc, Some e)
           | Inr s \<Rightarrow> write_chunks cs (acc @ s)))"

text \<open>\<open>if permalink:\<close> holds for a text that is not empty.\<close>

fun truthy :: "pytext option \<Rightarrow> bool" where
  "truthy None = False"
| "truthy (Some t) = (codes t \<noteq> [])"

definition front_matter :: "collab \<Rightarrow> conf \<Rightarrow> string \<Rightarrow> pytext \<Rightarrow> datetime \<Rightarrow>
    pytext option \<Rightarrow> pytext option \<Rightarrow> (pyerr + pytext option) list" where
  "front_matter c cf fmt title' date' body permalink =
     [Inr (Some (Str [CHR ''-'', CHR ''-'', CHR ''-'', CHR 0x0A])),
      Inr (Some (fmt_line ''title: '' title')),
      map_sum id (\<lambda>d. Some (fmt_line ''date: '' (Str d))) (strftime c date' (date_format cf)),
      Inr (Some (Str (''filter: ['' @ fmt @ '', ]'' @ [CHR 0x0A])))]
     @ (case permalink of
          None \<Rightarrow> []
        | Some pl \<Rightarrow> if truthy permalink then [Inr (Some (fmt_line ''permalink: '' pl))] else [])
     @ [Inr (Some (Str [CHR ''-'', CHR ''-'', CHR ''-'', CHR 0x0A, CHR 0x0A])),
        Inr body]"

subsection \<open>create\<close>

text \<open>
  \<open>create(title, date, content, permalink)\<close>, where \<open>content\<close> is the pair \<open>convert\<close>
  returned. The file is written, its destination computed, the directory made; a file
  at the destination raises before the rename, and the temporary file stays behind.
\<close>

definition left_behind :: "string \<Rightarrow> store \<Rightarrow> store" where
  "left_behind tmp st = st\<lparr>temps := temps st @ [tmp]\<rparr>"

definition exists_msg :: "collab \<Rightarrow> string \<Rightarrow> string" where
  "exists_msg c filepath = ''Entry already exists '' @ repr c filepath"

definition create :: "collab \<Rightarrow> conf \<Rightarrow> string \<Rightarrow> pytext option \<Rightarrow> datetime \<Rightarrow>
    (pytext option \<times> string) \<Rightarrow> pytext option \<Rightarrow> store \<Rightarrow> (pyerr + unit) \<times> store" where
  "create c cf fmt title' date' content' permalink st =
     (case escape c title' of
        Inl e \<Rightarrow> (Inl e, left_behind [] st)
      | Inr t \<Rightarrow>
          (case write_chunks (front_matter c cf fmt t date' (fst content') permalink) [] of
             (tmp, Some e) \<Rightarrow> (Inl e, left_behind tmp st)
           | (tmp, None) \<Rightarrow>
               (case entry_permalink c tmp of
                  Inl e \<Rightarrow> (Inl e, left_behind tmp st)
                | Inr pl \<Rightarrow>
                    (let st1 = st\<lparr>dirs := insert (rsplit_head (entry_dir cf pl)) (dirs st)\<rparr>;
                         filepath = filepath_of cf pl
                     in case files st1 filepath of
                          Some old \<Rightarrow>
                            (Inl (AcrylamidException (exists_msg c filepath)), left_behind tmp st1)
                        | None \<Rightarrow>
                            (Inr (), st1\<lparr>files := (files st1)(filepath \<mapsto> tmp),
                                         created := created st1 @ [filepath]\<rparr>)))))"

subsection \<open>The loop over the items\<close>

text \<open>
  \<open>permalink = m.path if m.path != '/' else None\<close>, computed when \<open>keep\<close> is set, before
  \<open>convert\<close> is called.
\<close>

definition kept_permalink :: "collab \<Rightarrow> bool \<Rightarrow> feed_item \<Rightarrow> pyerr + pytext option" where
  "kept_permalink c keep item =
     (if keep then
        (case urlsplit_path c (link item) of
           Inl e \<Rightarrow> Inl e
         | Inr path \<Rightarrow> Inr (if codes path = [47] then None else Some path))
      else Inr None)"

definition build_item :: "collab \<Rightarrow> conf \<Rightarrow> string \<Rightarrow> bool \<Rightarrow> feed_item \<Rightarrow> store \<Rightarrow>
    (pyerr + unit) \<times> store" where
  "build_item c cf fmt keep item st =
     (case kept_permalink c keep item of
        Inl e \<Rightarrow> (Inl e, st)
      | Inr permalink \<Rightarrow>
          (case convert (system c) (content item) fmt of
             (Inl e, es) \<Rightarrow> (Inl e, st\<lparr>effects := effects st @ es\<rparr>)
           | (Inr content', es) \<Rightarrow>
               create c cf fmt (title item) (date item) content' permalink
                 (st\<lparr>effects := effects st @ es\<rparr>)))"

fun build_list :: "collab \<Rightarrow> conf \<Rightarrow> string \<Rightarrow> bool \<Rightarrow> feed_item list \<Rightarrow> store \<Rightarrow>
    (pyerr + unit) \<times> store" where
  "build_list c cf fmt keep [] st = (Inr (), st)"
| "build_list c cf fmt keep (item # rest) st =
     (case build_item c cf fmt keep item st of
        (Inl e, st1) \<Rightarrow> (Inl e, st1)
      | (Inr u, st1) \<Rightarrow> build_list c cf fmt keep rest st1)"

text \<open>
  \<open>build\<close> on the generator of \<open>parse\<close>: the items it yields are built one by one, and the
  exception that ends the generator, if any, leaves \<open>build\<close> after them.
\<close>

definition build :: "collab \<Rightarrow> conf \<Rightarrow> items \<Rightarrow> string \<Rightarrow> bool \<Rightarrow> store \<Rightarrow> (pyerr + unit) \<times> store" where
  "build c cf its fmt keep st =
     (case build_list c cf fmt keep (fst its) st of
        (Inl e, st1) \<Rightarrow> (Inl e, st1)
      | (Inr u, st1) \<Rightarrow> (case snd its of None \<Rightarrow> (Inr (), st1) | Some e \<Rightarrow> (Inl e, st1)))"

text \<open>
  The destination \<open>create\<close> computes for an item, when everything before the test for an
  existing file goes through: the permalink to keep, the conversion, the escaped title,
  the writes, and the permalink of the entry.
\<close>

definition item_destination :: "collab \<Rightarrow> conf \<Rightarrow> string \<Rightarrow> bool \<Rightarrow> feed_item \<Rightarrow> string option" where
  "item_destination c cf fmt keep item =
     (case kept_permalink c keep item of
        Inl e \<Rightarrow> None
      | Inr permalink \<Rightarrow>
          (case convert (system c) (content item) fmt of
             (Inl e, es) \<Rightarrow> None
           | (Inr content', es) \<Rightarrow>
               (case escape c (title item) of
                  Inl e \<Rightarrow> None
                | Inr t \<Rightarrow>
                    (case write_chunks (front_matter c cf fmt t (date item) (fst content') permalink) [] of
                       (tmp, Some e) \<Rightarrow> None
                     | (tmp, None) \<Rightarrow>
                         (case entry_permalink c tmp of
                            Inl e \<Rightarrow> None
                          | Inr pl \<Rightarrow> Some (filepath_of cf pl))))))"

section \<open>Example documents\<close>

text \<open>
  The channel of a small RSS feed with one complete item, as \<open>ElementTree\<close> hands it
  over: the markup of the description has been decoded once by the XML parser.
\<close>

definition rss_item_example :: element where
  "rss_item_example =
     Element ''item'' [] None
       [Element ''title'' [] (Some (Str ''Hello'')) [],
        Element ''link'' [] (Some (Str ''http://example.org/hello'')) [],
        Element ''pubDate'' [] (Some (Str ''Wed, 02 Oct 2002 13:00:00 GMT'')) [],
        Element ''description'' [] (Some (Str ''<p>Tom &amp; Jerry</p>'')) []]"

definition rss_channel_example :: element where
  "rss_channel_example =
     Element ''channel'' [] None
       [Element ''title'' [] (Some (Str ''Blog'')) [],
        Element ''link'' [] (Some (Str ''http://example.org/'')) [],
        rss_item_example]"

text \<open>
  An Atom feed whose one entry has a title, an updated date and a link, but no content
  element.
\<close>

definition atom_entry_no_content :: element where
  "atom_entry_no_content =
     Element (ns @ ''entry'') [] None
       [Element (ns @ ''title'') [] (Some (Str ''Hello'')) [],
        Element (ns @ ''updated'') [] (Some (Str ''2002-10-02T13:00:00Z'')) [],
        Element (ns @ ''link'') [(''href'', ''http://example.org/hello'')] None []]"

definition atom_feed_no_content :: element where
  "atom_feed_no_content =
     Element (ns @ ''feed'') [] None
       [Element (ns @ ''title'') [] (Some (Str ''Blog'')) [],
        Element (ns @ ''id'') [] (Some (Str ''http://example.org/'')) [],
        Element (ns @ ''author'') [] None [Element (ns @ ''name'') [] (Some (Str ''Ann'')) []],
        atom_entry_no_content]"


text \<open>
  A run of \<open>build\<close>: collaborators that convert by copying, take the title as it is, and
  place an entry under the year and its title; one item; the store before any run and
  the store after a first run.
\<close>

definition collab_example :: collab where
  "collab_example =
     \<lparr>system = (\<lambda>cmd stdin. Output stdin),
      escape = (\<lambda>t. case t of None \<Rightarrow> Inl TypeError | Some x \<Rightarrow> Inr x),
      strftime = (\<lambda>d f. Inr ''2002-10-02 13:00''),
      entry_permalink = (\<lambda>tmp. Inr (''/2002/'' @ takeWhile (\<lambda>c. c \<noteq> CHR 0x0A) (drop 11 tmp) @ ''/'')),
      urlsplit_path = (\<lambda>l. Inr (Str ''/hello'')),
      repr = (\<lambda>s. [CHR 0x27] @ s @ [CHR 0x27])\<rparr>"

definition conf_example :: conf where
  "conf_example = \<lparr>date_format = ''%Y-%m-%d %H:%M'', entries_dir = ''content/''\<rparr>"

definition item_example :: feed_item where
  "item_example =
     \<lparr>title = Some (Str ''hello''), content = Some (Str ''<p>Hi</p>''),
      date = DateTime 2002 10 2 13 0 0, link = Some (Str ''http://example.org/hello'')\<rparr>"

definition entry_text_example :: string where
  "entry_text_example =
     [CHR ''-'', CHR ''-'', CHR ''-'', CHR 0x0A] @ ''title: hello'' @ [CHR 0x0A]
     @ ''date: 2002-10-02 13:00'' @ [CHR 0x0A] @ ''filter: [markdown, ]'' @ [CHR 0x0A]
     @ [CHR ''-'', CHR ''-'', CHR ''-'', CHR 0x0A, CHR 0x0A] @ ''<p>Hi</p>''"

definition store_empty :: store where
  "store_empty = \<lparr>files = Map.empty, dirs = {}, created = [], effects = [], temps = []\<rparr>"

definition store_after_first_run :: store where
  "store_after_first_run =
     \<lparr>files = [''content/2002/hello.txt'' \<mapsto> entry_text_example],
      dirs = {''content/2002''},
      created = [''content/2002/hello.txt''],
      effects = [Ran (pandoc ''markdown'') ''<p>Hi</p>''],
      temps = []\<rparr>"
section \<open>Properties of convert\<close>

lemma str_decode_utf8_ascii: "is_ascii d \<Longrightarrow> str_decode_utf8 d = Inr (as_str d)"
  by (simp add: str_decode_utf8_def)

lemma run_cmds_ascii_returns:
  "is_ascii d \<Longrightarrow> \<exists>r es. run_cmds sys d fmt cs = (Inr r, es)"
proof (induction cs)
  case Nil
  then show ?case by simp
next
  case (Cons c cs)
  then obtain r es where ih: "run_cmds sys d fmt cs = (Inr r, es)" by blast
  show ?case
    using Cons.prems ih by (cases "sys c (as_str d)") (simp_all add: str_decode_utf8_ascii)
qed

lemma run_cmds_all_fail:
  "is_ascii d \<Longrightarrow> list_all (\<lambda>c. \<not> (\<exists>out. sys c (as_str d) = Output out)) cs \<Longrightarrow>
   fst (run_cmds sys d fmt cs) = Inr (Some d, ''html'')"
proof (induction cs)
  case Nil
  then show ?case by simp
next
  case (Cons c cs)
  then have ih: "fst (run_cmds sys d fmt cs) = Inr (Some d, ''html'')" by simp
  from Cons.prems have no: "\<not> (\<exists>out. sys c (as_str d) = Output out)" by simp
  show ?case
    using Cons.prems(1) ih no
    by (cases "sys c (as_str d)") (auto simp: str_decode_utf8_ascii split: prod.splits)
qed

text \<open>
  C4. \<open>convert(html, "markdown")\<close> on a non-empty input that is not pure ASCII: the word
  "cafe" with an acute accent on the e, as the \<open>str\<close> of its UTF-8 bytes and as the
  \<open>unicode\<close> that \<open>ElementTree\<close> gives for such a text. \<open>str(data.decode('utf-8'))\<close>
  raises before any program is run, and neither \<open>except\<close> clause catches it: the call
  raises \<open>UnicodeError\<close>, whatever the external programs would do.
\<close>

theorem convert_markdown_non_ascii_raises:
  "convert sys (Some (Str [CHR ''c'', CHR ''a'', CHR ''f'', CHR 0xC3, CHR 0xA9])) ''markdown''
     = (Inl UnicodeError, [])
   \<and> convert sys (Some (Uni [99, 97, 102, 233])) ''markdown'' = (Inl UnicodeError, [])"
  by (simp add: convert_def fold_fmt_def markdown_names_def str_decode_utf8_def is_ascii_def)

text \<open>
  C7, as stated, fails: for the empty input and the alias \<open>md\<close> the tag returned is the
  folded \<open>markdown\<close>, not the format as given.
\<close>

theorem convert_empty_md_counterexample:
  "convert (\<lambda>c s. Unavailable) (Some (Str '''')) ''md'' = (Inr (Some (Str ''''), ''markdown''), [])
   \<and> fst (convert (\<lambda>c s. Unavailable) (Some (Str '''')) ''md'') \<noteq> Inr (Some (Str ''''), ''md'')"
  by (simp add: convert_def fold_fmt_def markdown_names_def)

text \<open>
  C7, amended. For an empty or absent input (\<open>None\<close> or \<open>''\<close>) \<open>convert\<close> runs no
  program and logs nothing. It returns \<open>('', f)\<close> where \<open>f\<close> is \<open>markdown\<close> for a Markdown
  alias, \<open>rst\<close> for a reStructuredText alias and the format as given otherwise, except
  for the format \<open>html\<close>, where it returns the input itself with the tag \<open>html\<close>.
\<close>

theorem convert_empty_input:
  assumes "data = None \<or> data = Some (Str '''')"
  shows "convert sys data fmt =
     (if fmt \<in> set markdown_names then (Inr (Some (Str ''''), ''markdown''), [])
      else if fmt \<in> set rst_names then (Inr (Some (Str ''''), ''rst''), [])
      else if fmt = ''html'' then (Inr (data, ''html''), [])
      else (Inr (Some (Str ''''), fmt), []))"
  using assms by (auto simp: convert_def fold_fmt_def)

theorem convert_empty_input_witness:
  "convert (\<lambda>c s. Output ''x'') None ''mkd'' = (Inr (Some (Str ''''), ''markdown''), [])
   \<and> convert (\<lambda>c s. Output ''x'') None ''textile'' = (Inr (Some (Str ''''), ''textile''), [])"
  using convert_empty_input [of None "\<lambda>c s. Output ''x''" "''mkd''"]
        convert_empty_input [of None "\<lambda>c s. Output ''x''" "''textile''"]
  by (simp add: markdown_names_def rst_names_def)

text \<open>
  C8, as stated, fails: \<open>textile\<close> is in neither alias set, yet pandoc is run with
  \<open>-t textile\<close> and its output is returned with the tag \<open>textile\<close>.
\<close>

theorem convert_textile_counterexample:
  "convert (\<lambda>c s. Output ''h1. t'') (Some (Str ''<h1>t</h1>'')) ''textile''
     = (Inr (Some (Str ''h1. t''), ''textile''), [Ran (pandoc ''textile'') ''<h1>t</h1>''])"
  by (simp add: convert_def fold_fmt_def markdown_names_def rst_names_def
      str_decode_utf8_def is_ascii_def lower_def lower_char_def)

lemma run_cmds_two:
  assumes "is_ascii d"
  shows "run_cmds sys d fmt [p, f] =
     (case sys p (as_str d) of
        Output out \<Rightarrow> (Inr (Some (Str out), lower fmt), [Ran p (as_str d)])
      | Failed m1 \<Rightarrow>
          (case sys f (as_str d) of
             Output out \<Rightarrow> (Inr (Some (Str out), lower fmt), [Ran p (as_str d), Warned m1, Ran f (as_str d)])
           | Failed m2 \<Rightarrow> (Inr (Some d, ''html''), [Ran p (as_str d), Warned m1, Ran f (as_str d), Warned m2])
           | Unavailable \<Rightarrow> (Inr (Some d, ''html''), [Ran p (as_str d), Warned m1, Ran f (as_str d)]))
      | Unavailable \<Rightarrow>
          (case sys f (as_str d) of
             Output out \<Rightarrow> (Inr (Some (Str out), lower fmt), [Ran p (as_str d), Ran f (as_str d)])
           | Failed m2 \<Rightarrow> (Inr (Some d, ''html''), [Ran p (as_str d), Ran f (as_str d), Warned m2])
           | Unavailable \<Rightarrow> (Inr (Some d, ''html''), [Ran p (as_str d), Ran f (as_str d)])))"
  using assms
  by (cases "sys p (as_str d)"; cases "sys f (as_str d)"; simp add: str_decode_utf8_ascii)

text \<open>
  C8, amended. An alias is folded, by exact match, to \<open>markdown\<close> or \<open>rst\<close>. For a
  Markdown alias and a non-empty ASCII input, pandoc is run with the target \<open>markdown\<close>
  and, when it fails or is unavailable, \<open>html2text\<close>; the first output is returned with
  the tag \<open>markdown\<close>. For a reStructuredText alias the target is \<open>rst\<close>, the fallback
  \<open>html2rest\<close> and the tag \<open>rst\<close>. In both cases the input is returned unchanged with the
  tag \<open>html\<close> when both programs fail. For the format \<open>html\<close> the input is returned
  unchanged with the tag \<open>html\<close> and no program is run. Every other format (\<open>textile\<close>,
  say) is handed to pandoc as its target: on a non-empty ASCII input exactly that one
  program is run; its output is returned with the lower-cased format as the tag, and
  only when it fails or is unavailable is the input returned unchanged with the tag
  \<open>html\<close>.
\<close>

theorem convert_format_folding:
  "(fmt \<in> set markdown_names \<longrightarrow> convert sys data fmt = convert sys data ''markdown'')
   \<and> (fmt \<in> set rst_names \<longrightarrow> convert sys data fmt = convert sys data ''rst'')
   \<and> convert sys data ''html'' = (Inr (data, ''html''), [])
   \<and> (fmt \<notin> set markdown_names \<and> fmt \<notin> set rst_names \<and> fmt \<noteq> ''html''
        \<and> d \<noteq> Str '''' \<and> is_ascii d \<longrightarrow>
      convert sys (Some d) fmt =
        (case sys (pandoc fmt) (as_str d) of
           Output out \<Rightarrow> (Inr (Some (Str out), lower fmt), [Ran (pandoc fmt) (as_str d)])
         | Failed msg \<Rightarrow> (Inr (Some d, ''html''), [Ran (pandoc fmt) (as_str d), Warned msg])
         | Unavailable \<Rightarrow> (Inr (Some d, ''html''), [Ran (pandoc fmt) (as_str d)])))
   \<and> (fmt \<in> {''Markdown'', ''markdown'', ''mkdown'', ''md'', ''mkd''}
        \<and> d \<noteq> Str '''' \<and> is_ascii d \<longrightarrow>
      convert sys (Some d) fmt =
        (let pd = Argv [''pandoc'', ''--normalize'', ''-f'', ''html'', ''-t'', ''markdown'', ''--strict''];
             fb = Prog ''html2text''
         in case sys pd (as_str d) of
              Output out \<Rightarrow> (Inr (Some (Str out), ''markdown''), [Ran pd (as_str d)])
            | Failed m1 \<Rightarrow>
                (case sys fb (as_str d) of
                   Output out \<Rightarrow>
                     (Inr (Some (Str out), ''markdown''), [Ran pd (as_str d), Warned m1, Ran fb (as_str d)])
                 | Failed m2 \<Rightarrow>
                     (Inr (Some d, ''html''), [Ran pd (as_str d), Warned m1, Ran fb (as_str d), Warned m2])
                 | Unavailable \<Rightarrow>
                     (Inr (Some d, ''html''), [Ran pd (as_str d), Warned m1, Ran fb (as_str d)]))
            | Unavailable \<Rightarrow>
                (case sys fb (as_str d) of
                   Output out \<Rightarrow> (Inr (Some (Str out), ''markdown''), [Ran pd (as_str d), Ran fb (as_str d)])
                 | Failed m2 \<Rightarrow>
                     (Inr (Some d, ''html''), [Ran pd (as_str d), Ran fb (as_str d), Warned m2])
                 | Unavailable \<Rightarrow> (Inr (Some d, ''html''), [Ran pd (as_str d), Ran fb (as_str d)]))))
   \<and> (fmt \<in> {''rst'', ''restructuredtext'', ''rest'', ''reStructuredText''}
        \<and> d \<noteq> Str '''' \<and> is_ascii d \<longrightarrow>
      convert sys (Some d) fmt =
        (let pd = Argv [''pandoc'', ''--normalize'', ''-f'', ''html'', ''-t'', ''rst'', ''--strict''];
             fb = Prog ''html2rest''
         in case sys pd (as_str d) of
              Output out \<Rightarrow> (Inr (Some (Str out), ''rst''), [Ran pd (as_str d)])
            | Failed m1 \<Rightarrow>
                (case sys fb (as_str d) of
                   Output out \<Rightarrow>
                     (Inr (Some (Str out), ''rst''), [Ran pd (as_str d), Warned m1, Ran fb (as_str d)])
                 | Failed m2 \<Rightarrow>
                     (Inr (Some d, ''html''), [Ran pd (as_str d), Warned m1, Ran fb (as_str d), Warned m2])
                 | Unavailable \<Rightarrow>
                     (Inr (Some d, ''html''), [Ran pd (as_str d), Warned m1, Ran fb (as_str d)]))
            | Unavailable \<Rightarrow>
                (case sys fb (as_str d) of
                   Output out \<Rightarrow> (Inr (Some (Str out), ''rst''), [Ran pd (as_str d), Ran fb (as_str d)])
                 | Failed m2 \<Rightarrow>
                     (Inr (Some d, ''html''), [Ran pd (as_str d), Ran fb (as_str d), Warned m2])
                 | Unavailable \<Rightarrow> (Inr (Some d, ''html''), [Ran pd (as_str d), Ran fb (as_str d)]))))"
proof -
  have md: "fmt \<in> set markdown_names \<Longrightarrow> convert sys data fmt = convert sys data ''markdown''"
    by (simp add: convert_def fold_fmt_def markdown_names_def)
  have rst: "fmt \<in> set rst_names \<Longrightarrow> convert sys data fmt = convert sys data ''rst''"
    by (auto simp: convert_def fold_fmt_def markdown_names_def rst_names_def)
  have html: "convert sys data ''html'' = (Inr (data, ''html''), [])"
    by (simp add: convert_def fold_fmt_def markdown_names_def rst_names_def)
  have other: "convert sys (Some d) fmt =
        (case sys (pandoc fmt) (as_str d) of
           Output out \<Rightarrow> (Inr (Some (Str out), lower fmt), [Ran (pandoc fmt) (as_str d)])
         | Failed msg \<Rightarrow> (Inr (Some d, ''html''), [Ran (pandoc fmt) (as_str d), Warned msg])
         | Unavailable \<Rightarrow> (Inr (Some d, ''html''), [Ran (pandoc fmt) (as_str d)]))"
    if "fmt \<notin> set markdown_names" "fmt \<notin> set rst_names" "fmt \<noteq> ''html''" "d \<noteq> Str ''''" "is_ascii d"
    using that
    by (simp add: convert_def fold_fmt_def str_decode_utf8_ascii split: sys_result.splits)
  have lo: "lower ''markdown'' = ''markdown''" "lower ''rst'' = ''rst''"
    by (simp_all add: lower_def lower_char_def)
  have md2: "convert sys (Some d) fmt =
        (let pd = Argv [''pandoc'', ''--normalize'', ''-f'', ''html'', ''-t'', ''markdown'', ''--strict''];
             fb = Prog ''html2text''
         in case sys pd (as_str d) of
              Output out \<Rightarrow> (Inr (Some (Str out), ''markdown''), [Ran pd (as_str d)])
            | Failed m1 \<Rightarrow>
                (case sys fb (as_str d) of
                   Output out \<Rightarrow>
                     (Inr (Some (Str out), ''markdown''), [Ran pd (as_str d), Warned m1, Ran fb (as_str d)])
                 | Failed m2 \<Rightarrow>
                     (Inr (Some d, ''html''), [Ran pd (as_str d), Warned m1, Ran fb (as_str d), Warned m2])
                 | Unavailable \<Rightarrow>
                     (Inr (Some d, ''html''), [Ran pd (as_str d), Warned m1, Ran fb (as_str d)]))
            | Unavailable \<Rightarrow>
                (case sys fb (as_str d) of
                   Output out \<Rightarrow> (Inr (Some (Str out), ''markdown''), [Ran pd (as_str d), Ran fb (as_str d)])
                 | Failed m2 \<Rightarrow>
                     (Inr (Some d, ''html''), [Ran pd (as_str d), Ran fb (as_str d), Warned m2])
                 | Unavailable \<Rightarrow> (Inr (Some d, ''html''), [Ran pd (as_str d), Ran fb (as_str d)])))"
    if "fmt \<in> {''Markdown'', ''markdown'', ''mkdown'', ''md'', ''mkd''}" "d \<noteq> Str ''''" "is_ascii d"
  proof -
    from that(1) have "fold_fmt fmt = ([Prog ''html2text''], ''markdown'')"
      by (auto simp: fold_fmt_def markdown_names_def)
    then have "convert sys (Some d) fmt = run_cmds sys d ''markdown'' [pandoc ''markdown'', Prog ''html2text'']"
      using that(2) by (simp add: convert_def)
    then show ?thesis
      unfolding Let_def by (simp only: run_cmds_two [OF that(3)] lo pandoc_def)
  qed
  have rst2: "convert sys (Some d) fmt =
        (let pd = Argv [''pandoc'', ''--normalize'', ''-f'', ''html'', ''-t'', ''rst'', ''--strict''];
             fb = Prog ''html2rest''
         in case sys pd (as_str d) of
              Output out \<Rightarrow> (Inr (Some (Str out), ''rst''), [Ran pd (as_str d)])
            | Failed m1 \<Rightarrow>
                (case sys fb (as_str d) of
                   Output out \<Rightarrow>
                     (Inr (Some (Str out), ''rst''), [Ran pd (as_str d), Warned m1, Ran fb (as_str d)])
                 | Failed m2 \<Rightarrow>
                     (Inr (Some d, ''html''), [Ran pd (as_str d), Warned m1, Ran fb (as_str d), Warned m2])
                 | Unavailable \<Rightarrow>
                     (Inr (Some d, ''html''), [Ran pd (as_str d), Warned m1, Ran fb (as_str d)]))
            | Unavailable \<Rightarrow>
                (case sys fb (as_str d) of
                   Output out \<Rightarrow> (Inr (Some (Str out), ''rst''), [Ran pd (as_str d), Ran fb (as_str d)])
                 | Failed m2 \<Rightarrow>
                     (Inr (Some d, ''html''), [Ran pd (as_str d), Ran fb (as_str d), Warned m2])
                 | Unavailable \<Rightarrow> (Inr (Some d, ''html''), [Ran pd (as_str d), Ran fb (as_str d)])))"
    if "fmt \<in> {''rst'', ''restructuredtext'', ''rest'', ''reStructuredText''}" "d \<noteq> Str ''''" "is_ascii d"
  proof -
    from that(1) have "fold_fmt fmt = ([Prog ''html2rest''], ''rst'')"
      by (auto simp: fold_fmt_def markdown_names_def rst_names_def)
    then have "convert sys (Some d) fmt = run_cmds sys d ''rst'' [pandoc ''rst'', Prog ''html2rest'']"
      using that(2) by (simp add: convert_def)
    then show ?thesis
      unfolding Let_def by (simp only: run_cmds_two [OF that(3)] lo pandoc_def)
  qed
  show ?thesis
    by (intro conjI impI; (elim conjE)?; (rule md rst html other md2 rst2; assumption?))
qed

theorem convert_format_folding_witness:
  "convert (\<lambda>c s. if c = Prog ''html2text'' then Output ''# x'' else Failed ''no'')
      (Some (Str ''<h1>x</h1>'')) ''mkd''
     = (Inr (Some (Str ''# x''), ''markdown''),
        [Ran (Argv [''pandoc'', ''--normalize'', ''-f'', ''html'', ''-t'', ''markdown'', ''--strict'']) ''<h1>x</h1>'',
         Warned ''no'', Ran (Prog ''html2text'') ''<h1>x</h1>''])
   \<and> convert (\<lambda>c s. if c = Prog ''html2text'' then Output ''# x'' else Failed ''no'')
      (Some (Str ''<h1>x</h1>'')) ''rest''
     = (Inr (Some (Str ''<h1>x</h1>''), ''html''),
        [Ran (Argv [''pandoc'', ''--normalize'', ''-f'', ''html'', ''-t'', ''rst'', ''--strict'']) ''<h1>x</h1>'',
         Warned ''no'', Ran (Prog ''html2rest'') ''<h1>x</h1>'', Warned ''no''])
   \<and> convert (\<lambda>c s. if c = Prog ''html2text'' then Output ''# x'' else Failed ''no'')
      (Some (Str ''<h1>x</h1>'')) ''textile''
     = (Inr (Some (Str ''<h1>x</h1>''), ''html''), [Ran (pandoc ''textile'') ''<h1>x</h1>'', Warned ''no''])
   \<and> convert (\<lambda>c s. if c = Prog ''html2text'' then Output ''# x'' else Failed ''no'')
      (Some (Str ''<h1>x</h1>'')) ''mkd''
     = convert (\<lambda>c s. if c = Prog ''html2text'' then Output ''# x'' else Failed ''no'')
      (Some (Str ''<h1>x</h1>'')) ''markdown''"
proof -
  note t = convert_format_folding [where sys = "\<lambda>c s. if c = Prog ''html2text'' then Output ''# x'' else Failed ''no''"
      and data = "Some (Str ''<h1>x</h1>'')" and d = "Str ''<h1>x</h1>''"]
  from t [of "''mkd''", THEN conjunct2, THEN conjunct2, THEN conjunct2, THEN conjunct2, THEN conjunct1]
  have a: "convert (\<lambda>c s. if c = Prog ''html2text'' then Output ''# x'' else Failed ''no'')
      (Some (Str ''<h1>x</h1>'')) ''mkd''
     = (Inr (Some (Str ''# x''), ''markdown''),
        [Ran (Argv [''pandoc'', ''--normalize'', ''-f'', ''html'', ''-t'', ''markdown'', ''--strict'']) ''<h1>x</h1>'',
         Warned ''no'', Ran (Prog ''html2text'') ''<h1>x</h1>''])"
    by (simp add: is_ascii_def Let_def)
  from t [of "''rest''", THEN conjunct2, THEN conjunct2, THEN conjunct2, THEN conjunct2, THEN conjunct2]
  have b: "convert (\<lambda>c s. if c = Prog ''html2text'' then Output ''# x'' else Failed ''no'')
      (Some (Str ''<h1>x</h1>'')) ''rest''
     = (Inr (Some (Str ''<h1>x</h1>''), ''html''),
        [Ran (Argv [''pandoc'', ''--normalize'', ''-f'', ''html'', ''-t'', ''rst'', ''--strict'']) ''<h1>x</h1>'',
         Warned ''no'', Ran (Prog ''html2rest'') ''<h1>x</h1>'', Warned ''no''])"
    by (simp add: is_ascii_def Let_def)
  from t [of "''textile''", THEN conjunct2, THEN conjunct2, THEN conjunct2, THEN conjunct1]
  have c: "convert (\<lambda>c s. if c = Prog ''html2text'' then Output ''# x'' else Failed ''no'')
      (Some (Str ''<h1>x</h1>'')) ''textile''
     = (Inr (Some (Str ''<h1>x</h1>''), ''html''), [Ran (pandoc ''textile'') ''<h1>x</h1>'', Warned ''no''])"
    by (simp add: is_ascii_def markdown_names_def rst_names_def pandoc_def)
  from t [of "''mkd''", THEN conjunct1]
  have d: "convert (\<lambda>c s. if c = Prog ''html2text'' then Output ''# x'' else Failed ''no'')
      (Some (Str ''<h1>x</h1>'')) ''mkd''
     = convert (\<lambda>c s. if c = Prog ''html2text'' then Output ''# x'' else Failed ''no'')
      (Some (Str ''<h1>x</h1>'')) ''markdown''"
    by (simp add: markdown_names_def)
  from a b c d show ?thesis by (intro conjI)
qed

text \<open>
  On a non-empty input of ASCII characters \<open>convert(html, "markdown")\<close> does not raise,
  and when both programs fail or are unavailable it returns the input unchanged with
  the tag \<open>html\<close>.
\<close>

theorem convert_markdown_ascii:
  assumes "is_ascii d" and "d \<noteq> Str ''''"
  shows "(\<exists>r es. convert sys (Some d) ''markdown'' = (Inr r, es))
     \<and> (list_all (\<lambda>c. \<not> (\<exists>out. sys c (as_str d) = Output out)) [pandoc ''markdown'', Prog ''html2text'']
          \<longrightarrow> fst (convert sys (Some d) ''markdown'') = Inr (Some d, ''html''))"
proof -
  have c: "convert sys (Some d) ''markdown''
             = run_cmds sys d ''markdown'' [pandoc ''markdown'', Prog ''html2text'']"
    using assms(2) by (simp add: convert_def fold_fmt_def markdown_names_def)
  from run_cmds_ascii_returns [OF assms(1)] have a: "\<exists>r es. convert sys (Some d) ''markdown'' = (Inr r, es)"
    unfolding c .
  have b: "fst (convert sys (Some d) ''markdown'') = Inr (Some d, ''html'')"
    if "list_all (\<lambda>c. \<not> (\<exists>out. sys c (as_str d) = Output out)) [pandoc ''markdown'', Prog ''html2text'']"
    unfolding c using assms(1) that by (rule run_cmds_all_fail)
  from a b show ?thesis by blast
qed

theorem convert_markdown_ascii_witness:
  "fst (convert (\<lambda>c s. Unavailable) (Some (Str ''<p>x</p>'')) ''markdown'')
     = Inr (Some (Str ''<p>x</p>''), ''html'')"
proof -
  have a: "is_ascii (Str ''<p>x</p>'')" by (simp add: is_ascii_def)
  have b: "Str ''<p>x</p>'' \<noteq> Str ''''" by simp
  from convert_markdown_ascii [OF a b, of "\<lambda>c s. Unavailable"] show ?thesis by simp
qed

section \<open>Properties of the date normalization\<close>

lemma parsedate_tz_pubDate:
  "parsedate_tz (Some (Str ''Wed, 02 Oct 2002 13:00:00 GMT''))
     = Inr (Some (2002, 10, 2, 13, 0, 0, Some 0))"
  by code_simp

lemma timegm_pubDate: "timegm 2002 10 2 13 0 0 = Inr 1033563600"
  by code_simp

lemma parse_date_time_pubDate:
  "parse_date_time tzoff (Some (Str ''Wed, 02 Oct 2002 13:00:00 GMT''))
     = fromtimestamp tzoff 1033563600"
  by (simp add: parse_date_time_def parsedate_tz_pubDate mktime_tz_def timegm_pubDate)

lemma strptime_atom_updated:
  "strptime_atom (Some (Str ''2002-10-02T13:00:00Z'')) = Inr (DateTime 2002 10 2 13 0 0)"
  by code_simp

lemma fromtimestamp_seconds:
  assumes "fromtimestamp tzoff ts = Inr (DateTime y m d hh mm ss)"
  shows "(ts + tzoff) mod 86400 = hh * 3600 + mm * 60 + ss"
proof -
  define secs where "secs = (ts + tzoff) mod 86400"
  from assms have h: "hh = secs div 3600" and m: "mm = secs mod 3600 div 60" and s: "ss = secs mod 60"
    by (auto simp: fromtimestamp_def Let_def secs_def split: prod.splits if_splits)
  have a: "secs = secs div 3600 * 3600 + secs mod 3600" by simp
  have b: "secs mod 3600 = secs mod 3600 div 60 * 60 + secs mod 3600 mod 60" by simp
  have c: "secs mod 3600 mod 60 = secs mod 60"
    by (rule mod_mod_cancel) simp
  show ?thesis using a b c h m s unfolding secs_def by linarith
qed

lemma offset_zero:
  assumes "(1033563600 + z) mod 86400 = (46800::int)" "- 86400 < z" "z < 86400"
  shows "z = 0"
proof -
  have "1033563600 + z = (1033563600 + z) div 86400 * 86400 + (1033563600 + z) mod 86400"
    by simp
  with assms(1) have "1033563600 + z = (1033563600 + z) div 86400 * 86400 + 46800"
    by simp
  then obtain q :: int where q: "1033563600 + z = q * 86400 + 46800" by blast
  from q assms(2) have "11961 * 86400 < q * 86400" by linarith
  then have lo: "11961 < q" by (simp only: mult_less_cancel_right_pos zero_less_numeral)
  from q assms(3) have "q * 86400 < 11963 * 86400" by linarith
  then have hi: "q < 11963" by (simp only: mult_less_cancel_right_pos zero_less_numeral)
  from lo hi have "q = 11962" by linarith
  with q show ?thesis by linarith
qed

text \<open>
  The two parsers on the same instant. \<open>rss20\<close> resolves \<open>Wed, 02 Oct 2002 13:00:00 GMT\<close>
  to the timestamp 1033563600 and gives the naive local time of that instant; \<open>atom\<close>
  gives \<open>2002-10-02T13:00:00Z\<close> as the naive 2002-10-02 13:00:00 whatever the local zone.
  For a local zone less than a day from UTC the two results are equal exactly when the
  offset of the zone is zero.
\<close>

lemma dates_agree_iff_utc:
  assumes "- 86400 < tzoff" and "tzoff < 86400"
  shows "parse_date_time tzoff (Some (Str ''Wed, 02 Oct 2002 13:00:00 GMT''))
           = fromtimestamp tzoff 1033563600
     \<and> strptime_atom (Some (Str ''2002-10-02T13:00:00Z'')) = Inr (DateTime 2002 10 2 13 0 0)
     \<and> ((parse_date_time tzoff (Some (Str ''Wed, 02 Oct 2002 13:00:00 GMT''))
           = strptime_atom (Some (Str ''2002-10-02T13:00:00Z''))) = (tzoff = 0))"
proof -
  have utc: "fromtimestamp 0 1033563600 = Inr (DateTime 2002 10 2 13 0 0)"
    by code_simp
  have "tzoff = 0" if "fromtimestamp tzoff 1033563600 = Inr (DateTime 2002 10 2 13 0 0)"
  proof -
    from fromtimestamp_seconds [OF that] have "(1033563600 + tzoff) mod 86400 = 46800"
      by simp
    with assms show ?thesis by (intro offset_zero)
  qed
  then show ?thesis
    using utc by (auto simp: parse_date_time_pubDate strptime_atom_updated)
qed

lemma dates_agree_iff_utc_example:
  "parse_date_time 0 (Some (Str ''Wed, 02 Oct 2002 13:00:00 GMT''))
     = strptime_atom (Some (Str ''2002-10-02T13:00:00Z''))
   \<and> parse_date_time (- 18000) (Some (Str ''Wed, 02 Oct 2002 13:00:00 GMT''))
     \<noteq> strptime_atom (Some (Str ''2002-10-02T13:00:00Z''))"
proof -
  have h0: "- 86400 < (0::int)" "(0::int) < 86400" by simp_all
  have h1: "- 86400 < (- 18000::int)" "(- 18000::int) < 86400" by simp_all
  have n: "(- 18000::int) \<noteq> 0" by simp
  from dates_agree_iff_utc [OF h0] have a:
    "parse_date_time 0 (Some (Str ''Wed, 02 Oct 2002 13:00:00 GMT''))
       = strptime_atom (Some (Str ''2002-10-02T13:00:00Z''))"
    by blast
  from dates_agree_iff_utc [OF h1] n have b:
    "parse_date_time (- 18000) (Some (Str ''Wed, 02 Oct 2002 13:00:00 GMT''))
       \<noteq> strptime_atom (Some (Str ''2002-10-02T13:00:00Z''))"
    by blast
  from a b show ?thesis by (rule conjI)
qed

text \<open>
  C3. In a process whose local zone is two hours east of UTC, \<open>rss20\<close> normalizes
  \<open>Wed, 02 Oct 2002 13:00:00 GMT\<close> to the naive local time 2002-10-02 15:00:00, and
  \<open>atom\<close> normalizes \<open>2002-10-02T13:00:00Z\<close>, the same instant, to the naive
  2002-10-02 13:00:00: \<open>strptime\<close> at line 170 reads the UTC wall clock and nothing
  converts it to local time, as \<open>parse_date_time\<close> does in \<open>rss20\<close>. The two values
  differ.
\<close>

theorem dates_differ_two_hours_east:
  "parse_date_time 7200 (Some (Str ''Wed, 02 Oct 2002 13:00:00 GMT''))
     = Inr (DateTime 2002 10 2 15 0 0)
   \<and> strptime_atom (Some (Str ''2002-10-02T13:00:00Z'')) = Inr (DateTime 2002 10 2 13 0 0)
   \<and> parse_date_time 7200 (Some (Str ''Wed, 02 Oct 2002 13:00:00 GMT''))
     \<noteq> strptime_atom (Some (Str ''2002-10-02T13:00:00Z''))"
proof -
  have a: "fromtimestamp 7200 1033563600 = Inr (DateTime 2002 10 2 15 0 0)"
    by code_simp
  show ?thesis
    by (simp add: parse_date_time_pubDate strptime_atom_updated a)
qed


section \<open>Properties of unescape\<close>

lemma table_names:
  "list_all (\<lambda>(n, cp). CHR '';'' \<notin> set n \<and> CHR ''#'' \<notin> set n) name2codepoint"
  by (simp add: name2codepoint_def)

lemma name_chars:
  assumes "map_of name2codepoint n = Some cp"
  shows "CHR '';'' \<notin> set n" and "CHR ''#'' \<notin> set n"
proof -
  from assms have "(n, cp) \<in> set name2codepoint" by (rule map_of_SomeD)
  with table_names have "CHR '';'' \<notin> set n \<and> CHR ''#'' \<notin> set n"
    by (auto simp: list_all_iff)
  then show "CHR '';'' \<notin> set n" and "CHR ''#'' \<notin> set n" by simp_all
qed


lemma of_char_semicolon: "(of_char c = (59::nat)) = (c = CHR '';'')"
proof
  assume "of_char c = (59::nat)"
  then have "of_char c = (of_char CHR '';'' :: nat)" by simp
  then show "c = CHR '';''" by (simp only: of_char_eq_iff)
next
  assume "c = CHR '';''"
  then show "of_char c = (59::nat)" by simp
qed


lemma entity_at_named:
  assumes "map_of name2codepoint n = Some cp"
  shows "entity_at (map of_char n @ 59 # post) = Some (cp, post)"
proof -
  have no: "\<And>c. c \<in> set (map of_char n :: nat list) \<Longrightarrow> c \<noteq> 59"
    using name_chars(1) [OF assms] by (auto simp: of_char_semicolon)
  have "takeWhile (\<lambda>c. c \<noteq> 59) ((map of_char n :: nat list) @ 59 # post)
          = map of_char n @ takeWhile (\<lambda>c. c \<noteq> 59) (59 # post)"
    by (rule takeWhile_append2) (rule no)
  then have tw: "takeWhile (\<lambda>c. c \<noteq> 59) (map of_char n @ 59 # post) = (map of_char n :: nat list)"
    by simp
  have "dropWhile (\<lambda>c. c \<noteq> 59) ((map of_char n :: nat list) @ 59 # post)
          = dropWhile (\<lambda>c. c \<noteq> 59) (59 # post)"
    by (rule dropWhile_append2) (rule no)
  then have dw: "dropWhile (\<lambda>c. c \<noteq> 59) (map of_char n @ 59 # post) = 59 # post"
    by simp
  have small: "list_all (\<lambda>c. c < 256) (map of_char n :: nat list)"
    by (simp add: list_all_iff)
  have roundtrip: "map char_of (map of_char n :: nat list) = n"
    by (simp add: map_idI)
  show ?thesis
    unfolding entity_at_def tw dw using small roundtrip assms by simp
qed


lemma sub_entities_no_amp: "38 \<notin> set pre \<Longrightarrow> sub_entities (pre @ cs) = pre @ sub_entities cs"
  by (induction pre) auto

lemma sub_entities_named:
  assumes "map_of name2codepoint n = Some cp" and "38 \<notin> set pre"
  shows "sub_entities (pre @ 38 # map of_char n @ 59 # post) = pre @ cp # sub_entities post"
  using assms by (simp add: sub_entities_no_amp entity_at_named)





lemma of_char_amp: "(of_char c = (38::nat)) = (c = CHR ''&'')"
proof
  assume "of_char c = (38::nat)"
  then have "of_char c = (of_char CHR ''&'' :: nat)" by simp
  then show "c = CHR ''&''" by (simp only: of_char_eq_iff)
next
  assume "c = CHR ''&''"
  then show "of_char c = (38::nat)" by simp
qed

lemma sub_entities_length: "length (sub_entities cs) \<le> length cs"
proof (induction cs rule: sub_entities.induct)
  case 1
  then show ?case by simp
next
  case (2 c cs)
  show ?case
  proof (cases "c = 38")
    case False
    with 2 show ?thesis by simp
  next
    case True
    show ?thesis
    proof (cases "entity_at cs")
      case None
      with True 2 show ?thesis by simp
    next
      case (Some r)
      obtain cp rest where r: "r = (cp, rest)" by (cases r)
      from Some r have e: "entity_at cs = Some (cp, rest)" by simp
      from "2.IH"(2) [OF True e refl] have "length (sub_entities rest) \<le> length rest" .
      moreover from entity_at_shorter [OF e] have "length rest \<le> length cs" by simp
      ultimately show ?thesis using True e by simp
    qed
  qed
qed



text \<open>
  A byte string with a reference and a byte above 127 cannot be joined with the
  \<open>unicode\<close> of the reference: \<open>re.sub\<close> raises \<open>UnicodeDecodeError\<close>. ElementTree hands
  such a text over as a \<open>unicode\<close>, and an ASCII text as a \<open>str\<close>.
\<close>

lemma unescape_str_non_ascii:
  assumes "map_of name2codepoint n = Some cp" and "CHR ''&'' \<notin> set p"
      and "\<not> is_ascii (Str (p @ CHR ''&'' # n @ CHR '';'' # q))"
  shows "unescape (Some (Str (p @ CHR ''&'' # n @ CHR '';'' # q))) = Inl UnicodeError"
proof -
  have m: "map of_char (p @ CHR ''&'' # n @ CHR '';'' # q)
             = (map of_char p @ 38 # map of_char n @ 59 # map of_char q :: nat list)"
    by simp
  have np: "38 \<notin> set (map of_char p :: nat list)"
    using assms(2) by (auto simp: of_char_amp)
  have se: "sub_entities (map of_char (p @ CHR ''&'' # n @ CHR '';'' # q))
              = map of_char p @ cp # sub_entities (map of_char q)"
    unfolding m by (rule sub_entities_named [OF assms(1) np])
  have "length (sub_entities (map of_char q)) \<le> length q"
    using sub_entities_length [of "map of_char q"] by simp
  then have "length (map of_char p @ cp # sub_entities (map of_char q))
               < length (map of_char (p @ CHR ''&'' # n @ CHR '';'' # q) :: nat list)"
    by simp
  then have ne: "sub_entities (map of_char (p @ CHR ''&'' # n @ CHR '';'' # q))
                   \<noteq> map of_char (p @ CHR ''&'' # n @ CHR '';'' # q)"
    unfolding se by (metis less_irrefl)
  show ?thesis
    using ne assms(3) by (simp only: unescape.simps se if_False if_True)
qed




lemma amp_lookup: "map_of name2codepoint ''amp'' = Some 38"
  by (simp add: name2codepoint_def)

lemma unescape_example:
  "unescape (Some (Str ''<p>Tom &amp; Jerry</p>'')) = Inr (Uni (map of_char ''<p>Tom & Jerry</p>''))"
proof -
  have "sub_entities (map of_char ''<p>Tom '' @ 38 # map of_char ''amp'' @ 59 # map of_char '' Jerry</p>'')
          = map of_char ''<p>Tom '' @ 38 # sub_entities (map of_char '' Jerry</p>'')"
    by (rule sub_entities_named) (simp_all add: amp_lookup)
  then have "sub_entities (map of_char ''<p>Tom &amp; Jerry</p>'') = map of_char ''<p>Tom & Jerry</p>''"
    by simp
  then show ?thesis by (simp add: is_ascii_def)
qed

lemma fromtimestamp_utc: "fromtimestamp 0 1033563600 = Inr (DateTime 2002 10 2 13 0 0)"
  by code_simp

lemma rss20_item_example:
  "rss20_item 0 rss_item_example =
     Inr \<lparr>title = Some (Str ''Hello''), content = Some (Uni (map of_char ''<p>Tom & Jerry</p>'')),
          date = DateTime 2002 10 2 13 0 0, link = Some (Str ''http://example.org/hello'')\<rparr>"
  by (simp add: rss20_item_def rss20_entry_def rss_item_example_def text_of_def find_elem_def
      unescape_example parse_date_time_pubDate fromtimestamp_utc del: unescape.simps)



section \<open>Properties of parse\<close>

lemma rss20_defaults_example:
  "rss20_defaults rss_channel_example
     = [''sitename'' \<mapsto> Some (Str ''Blog''), ''www_root'' \<mapsto> Some (Str ''http://example.org/'')]"
  by (simp add: rss20_defaults_def set_default_def find_elem_def rss_channel_example_def
      rss_item_example_def)

lemma findall_example: "findall rss_channel_example ''item'' = [rss_item_example]"
  by (simp add: findall_def rss_channel_example_def rss_item_example_def)

text \<open>
  The example channel under a root \<open>rss\<close> without a version attribute is read as RSS:
  the defaults, then the one item.
\<close>

lemma parse_rss_without_version:
  "parse 0 (Some (Element ''rss'' [] None [rss_channel_example]))
     = Inr ([''sitename'' \<mapsto> Some (Str ''Blog''), ''www_root'' \<mapsto> Some (Str ''http://example.org/'')],
            [\<lparr>title = Some (Str ''Hello''), content = Some (Uni (map of_char ''<p>Tom & Jerry</p>'')),
              date = DateTime 2002 10 2 13 0 0, link = Some (Str ''http://example.org/hello'')\<rparr>],
            None)"
  by (simp add: rss20_defaults_example findall_example rss20_item_example)

text \<open>
  C1. The same channel under \<open><rss version="2.0">\<close>, a well-formed RSS 2.0 document with
  every required field: \<open>rss20\<close> raises \<open>InvalidSource\<close> at the test of line 86, \<open>parse\<close>
  goes on to \<open>atom\<close>, which rejects the root tag, and \<open>parse\<close> raises. No defaults and no
  item are produced.
\<close>

theorem parse_rss_version_2_0_rejected:
  "rss20 tzoff (Some (Element ''rss'' [(''version'', ''2.0'')] None [rss_channel_example]))
     = Inl (InvalidSource ''no RSS 2.0 feed'')
   \<and> parse tzoff (Some (Element ''rss'' [(''version'', ''2.0'')] None [rss_channel_example]))
     = Inl (AcrylamidException ''unable to parse source, no RSS 2.0 feed; no Atom feed'')"
  by (simp add: endswith_def)

text \<open>
  What the Atom parser does with the content of an entry it yields: it is unescaped when
  the type attribute of the content element is \<open>html\<close>, and the raw text otherwise (an
  absent attribute counts as \<open>text\<close>).
\<close>

lemma atom_content_unescaped_iff_html:
  assumes "atom_item entry = Inr y" and "find_elem entry (ns @ ''content'') = Some c"
  shows "map_of (el_attrib c) ''type'' = Some ''html'' \<Longrightarrow> unescape (el_text c) = Inr u \<Longrightarrow> content y = Some u"
    and "map_of (el_attrib c) ''type'' \<noteq> Some ''html'' \<Longrightarrow> content y = el_text c"
  using assms
  by (auto simp: atom_item_def atom_unescape_def atom_entry_def text_of_def Let_def
      split: sum.splits option.splits if_splits)

lemma atom_item_without_content:
  "find_elem entry (ns @ ''content'') = None \<Longrightarrow> atom_item entry = Inl AttributeError"
  by (simp add: atom_item_def atom_unescape_def)

text \<open>
  C9. An Atom feed whose entry has no content element: the feed is identified as Atom
  (the defaults are yielded), and the first entry ends the generator with
  \<open>AttributeError\<close>, raised by \<open>item.find(ns + 'content').get\<close> of line 161, not with the
  \<open>AcrylamidException\<close> of the missing-field check.
\<close>

theorem parse_atom_without_content:
  "map_sum id snd (parse tzoff (Some atom_feed_no_content)) = Inr ([], Some AttributeError)
   \<and> atom_item atom_entry_no_content \<noteq> Inl (AcrylamidException atom_missing_msg)"
proof -
  have nc: "find_elem atom_entry_no_content (ns @ ''content'') = None"
    by (simp add: find_elem_def atom_entry_no_content_def ns_def)
  have item: "atom_item atom_entry_no_content = Inl AttributeError"
    using nc by (rule atom_item_without_content)
  have tag: "endswith (el_tag atom_feed_no_content) ''/2005/Atom}feed''"
    by (simp add: endswith_def atom_feed_no_content_def ns_def)
  have rss: "rss20 tzoff (Some atom_feed_no_content) = Inl (InvalidSource ''no RSS 2.0 feed'')"
    by (simp add: atom_feed_no_content_def ns_def)
  have d: "\<exists>d. atom_defaults atom_feed_no_content = Inr d"
    by (simp add: atom_defaults_def find_elem_def atom_feed_no_content_def
        atom_entry_no_content_def ns_def)
  have es: "findall atom_feed_no_content (ns @ ''entry'') = [atom_entry_no_content]"
    by (simp add: findall_def atom_feed_no_content_def atom_entry_no_content_def ns_def)
  from d obtain dv where dv: "atom_defaults atom_feed_no_content = Inr dv" by blast
  have "atom (Some atom_feed_no_content) = Inr (dv, ([], Some AttributeError))"
    using tag dv es item by simp
  then show ?thesis using rss item by simp
qed



section \<open>Properties of fetch\<close>

lemma invalid_status_401: "invalid_status 401 = ''invalid status code 401, aborting.''"
  by code_simp

text \<open>
  C2. The server answers 401 to the request without credentials and would answer 200
  with a body to the request with the credentials the user types. When \<open>urlopen\<close> hands
  the 401 response back, \<open>fetch\<close> prompts and sends the retry with the credentials, but
  the body of the retry is dropped and \<open>fetch\<close> raises for the status 401. When the retry
  is answered 401 too, \<open>fetch\<close> does not raise then: it prompts again and sends a third
  request. When \<open>urlopen\<close> raises the 401 as \<open>HTTPError\<close>, as the stock opener of
  \<open>urllib2\<close> does, \<open>fetch\<close> raises at once, without a prompt and without a retry.
\<close>

theorem fetch_401_then_200_raises:
  "fetch b64encode fs ''http://example.org/feed'' None
      [Response 401 [], Response 200 ''<rss/>''] [(''ann'', ''secret'')]
     = (Some (Inl (AcrylamidException ''invalid status code 401, aborting.'')),
        [Requested ''http://example.org/feed'' None, Prompted,
         Requested ''http://example.org/feed'' (Some (''Basic '' @ b64encode ''ann:secret''))])
   \<and> snd (fetch b64encode fs ''http://example.org/feed'' None
      [Response 401 [], Response 401 [], Response 200 ''<rss/>'']
      [(''ann'', ''wrong''), (''ann'', ''secret'')])
     = [Requested ''http://example.org/feed'' None, Prompted,
        Requested ''http://example.org/feed'' (Some (''Basic '' @ b64encode ''ann:wrong'')), Prompted,
        Requested ''http://example.org/feed'' (Some (''Basic '' @ b64encode ''ann:secret''))]
   \<and> fetch b64encode fs ''http://example.org/feed'' None
      [RaisesHTTPError ''Unauthorized'', Response 200 ''<rss/>''] [(''ann'', ''secret'')]
     = (Some (Inl (AcrylamidException ''Unauthorized'')),
        [Requested ''http://example.org/feed'' None])"
  by (simp add: startswith_def authorization_def invalid_status_401)

text \<open>
  The other outcomes of a request: the body for 200, an \<open>AcrylamidException\<close> for any
  status but 200 and 401 and for an \<open>HTTPError\<close>; a failure of the transport leaves
  \<open>fetch\<close> as \<open>URLError\<close>.
\<close>

lemma fetch_single_request:
  assumes "startswith url ''http://'' \<or> startswith url ''https://''"
  shows "fst (fetch b64encode fs url auth (Response 200 body # net) console) = Some (Inr body)"
    and "code \<noteq> 200 \<Longrightarrow> code \<noteq> 401 \<Longrightarrow>
         fst (fetch b64encode fs url auth (Response code body # net) console)
           = Some (Inl (AcrylamidException (invalid_status code)))"
    and "fst (fetch b64encode fs url auth (RaisesHTTPError msg # net) console)
           = Some (Inl (AcrylamidException msg))"
    and "fst (fetch b64encode fs url auth (RaisesURLError msg # net) console)
           = Some (Inl (URLError msg))"
  using assms by auto

section \<open>Properties of build\<close>

lemma create_files_kept:
  assumes "create c cf fmt title' date' content' permalink st = (r, st')"
      and "files st p = Some v"
  shows "files st' p = Some v"
  using assms
  by (auto simp: create_def left_behind_def Let_def
      split: sum.splits prod.splits option.splits)

lemma build_item_files_kept:
  assumes "build_item c cf fmt keep item st = (r, st')" and "files st p = Some v"
  shows "files st' p = Some v"
proof (cases "kept_permalink c keep item")
  case (Inl e)
  with assms show ?thesis by (simp add: build_item_def)
next
  case (Inr permalink)
  obtain res es where cv: "convert (system c) (content item) fmt = (res, es)"
    by (cases "convert (system c) (content item) fmt")
  show ?thesis
  proof (cases res)
    case (Inl e)
    with assms Inr cv show ?thesis by (auto simp: build_item_def)
  next
    case r2: (Inr content')
    from assms(1) Inr cv r2 have
      "create c cf fmt (title item) (date item) content' permalink (st\<lparr>effects := effects st @ es\<rparr>) = (r, st')"
      by (simp add: build_item_def)
    moreover from assms(2) have "files (st\<lparr>effects := effects st @ es\<rparr>) p = Some v" by simp
    ultimately show ?thesis by (rule create_files_kept)
  qed
qed

lemma build_list_files_kept:
  assumes "build_list c cf fmt keep xs st = (r, st')" and "files st p = Some v"
  shows "files st' p = Some v"
  using assms
proof (induction xs arbitrary: st)
  case Nil
  then show ?case by simp
next
  case (Cons item rest)
  obtain r1 st1 where b: "build_item c cf fmt keep item st = (r1, st1)"
    by (cases "build_item c cf fmt keep item st")
  from b Cons.prems(2) have k: "files st1 p = Some v" by (rule build_item_files_kept)
  show ?case
  proof (cases r1)
    case (Inl e)
    with b Cons.prems(1) have "st' = st1" by simp
    with k show ?thesis by simp
  next
    case (Inr u)
    with b Cons.prems(1) have "build_list c cf fmt keep rest st1 = (r, st')" by simp
    from Cons.IH [OF this k] show ?thesis .
  qed
qed

lemma build_item_collision:
  assumes "item_destination c cf fmt keep item = Some fp" and "files st fp = Some old"
  shows "\<exists>st'. build_item c cf fmt keep item st = (Inl (AcrylamidException (exists_msg c fp)), st')
           \<and> files st' = files st \<and> created st' = created st"
  using assms
  by (auto simp: item_destination_def build_item_def create_def left_behind_def Let_def
      split: sum.splits prod.splits option.splits)

lemma build_list_append:
  "build_list c cf fmt keep (pre @ xs) st =
     (case build_list c cf fmt keep pre st of
        (Inl e, st1) \<Rightarrow> (Inl e, st1)
      | (Inr u, st1) \<Rightarrow> build_list c cf fmt keep xs st1)"
  by (induction pre arbitrary: st) (auto split: prod.splits sum.splits)

text \<open>
  C5. Some items have been written, and the destination computed for the next item is
  a file that exists. Then \<open>build\<close> raises the \<open>AcrylamidException\<close> that names the path.
  Nothing is renamed and nothing announced for that item: the content files are those
  that were there when the item was reached, with their bytes, so the file in the way
  keeps its content and the entries written earlier in the run are still there. Every
  file that was there before the run still has its content.
\<close>

theorem build_existing_destination:
  assumes "build_list c cf fmt keep pre st = (Inr (), st1)"
      and "item_destination c cf fmt keep item = Some fp"
      and "files st1 fp = Some old"
  shows "\<exists>st2. build c cf (pre @ item # rest, err) fmt keep st
                 = (Inl (AcrylamidException (exists_msg c fp)), st2)
           \<and> files st2 = files st1 \<and> created st2 = created st1
           \<and> (\<forall>p v. files st p = Some v \<longrightarrow> files st2 p = Some v)"
proof -
  from build_item_collision [OF assms(2,3)] obtain st2 where
    hit: "build_item c cf fmt keep item st1 = (Inl (AcrylamidException (exists_msg c fp)), st2)"
    and same: "files st2 = files st1" "created st2 = created st1"
    by blast
  have run: "build_list c cf fmt keep (pre @ item # rest) st
               = (Inl (AcrylamidException (exists_msg c fp)), st2)"
    using assms(1) hit by (simp add: build_list_append)
  have kept: "files st2 p = Some v" if "files st p = Some v" for p v
    using run that by (rule build_list_files_kept)
  from run same kept show ?thesis by (simp add: build_def)
qed

lemma item_destination_example:
  "item_destination collab_example conf_example ''markdown'' False item_example
     = Some ''content/2002/hello.txt''"
  by (simp add: item_destination_def kept_permalink_def collab_example_def conf_example_def
      item_example_def convert_def fold_fmt_def markdown_names_def str_decode_utf8_def
      is_ascii_def front_matter_def filepath_of_def entry_dir_def dirname_def path_join_def
      startswith_def endswith_def lower_def lower_char_def)

text \<open>A first run on the empty store writes the entry.\<close>

lemma build_first_run:
  "build collab_example conf_example ([item_example], None) ''markdown'' False store_empty
     = (Inr (), store_after_first_run)"
  by (simp add: build_def build_item_def create_def kept_permalink_def collab_example_def
      conf_example_def item_example_def convert_def fold_fmt_def markdown_names_def
      str_decode_utf8_def is_ascii_def front_matter_def filepath_of_def entry_dir_def
      dirname_def path_join_def rsplit_head_def startswith_def endswith_def lower_def
      lower_char_def store_empty_def store_after_first_run_def entry_text_example_def Let_def)

theorem build_existing_destination_witness:
  "fst (build collab_example conf_example ([item_example], None) ''markdown'' False
          store_after_first_run)
     = Inl (AcrylamidException (''Entry already exists '' @ [CHR 0x27] @ ''content/2002/hello.txt'' @ [CHR 0x27]))
   \<and> files (snd (build collab_example conf_example ([item_example], None) ''markdown'' False
          store_after_first_run)) ''content/2002/hello.txt''
     = Some entry_text_example"
proof -
  have a: "build_list collab_example conf_example ''markdown'' False [] store_after_first_run
             = (Inr (), store_after_first_run)"
    by simp
  have b: "files store_after_first_run ''content/2002/hello.txt'' = Some entry_text_example"
    by (simp add: store_after_first_run_def)
  from build_existing_destination [OF a item_destination_example b, of "[]" None]
  obtain st2 where
    "build collab_example conf_example ([item_example], None) ''markdown'' False store_after_first_run
       = (Inl (AcrylamidException (exists_msg collab_example ''content/2002/hello.txt'')), st2)"
    and "files st2 = files store_after_first_run"
    by auto
  then show ?thesis
    using b by (simp add: exists_msg_def collab_example_def)
qed

end
